theory Spec2Isabelle
  imports Main "HOL-Library.Word"
begin

section \<open>DirectShow capture device manager (DSManager.cpp)\<close>

text \<open>
  The manager is embedded as a state record that is passed through every member
  function. Besides the two data members the code has (\<open>m_devices\<close> and
  \<open>_coUninitialize\<close>) the record carries the list of the COM and allocator calls made so
  far, so that acquisitions and releases of interface pointers can be counted.
  Calls to the logger and the \<open>VARIANT\<close> bookkeeping (\<open>VariantInit\<close>, \<open>VariantClear\<close>)
  touch neither an interface pointer nor the device list and are not recorded.
\<close>

subsection \<open>HRESULT\<close>

text \<open>
  \<open>HRESULT\<close> is a signed 32-bit value; the Windows SDK macros \<open>SUCCEEDED\<close> and \<open>FAILED\<close>
  test its sign, \<open>S_OK\<close> is 0 and \<open>S_FALSE\<close> is 1.
\<close>

type_synonym HRESULT = int

definition SUCCEEDED :: "HRESULT \<Rightarrow> bool" where
  "SUCCEEDED hr = (0 \<le> hr)"

definition FAILED :: "HRESULT \<Rightarrow> bool" where
  "FAILED hr = (hr < 0)"

definition S_OK :: HRESULT where
  "S_OK = 0"

definition S_FALSE :: HRESULT where
  "S_FALSE = 1"

definition E_NOINTERFACE :: HRESULT where
  "E_NOINTERFACE = - 2147467262"

definition E_FAIL :: HRESULT where
  "E_FAIL = - 2147467259"

subsection \<open>Monikers, devices, interface pointers\<close>

text \<open>
  A moniker is described by what each call made on it in \<open>initCaptureDevices\<close> answers.
  \<open>DSCaptureDevice::initDevice\<close> is defined in \<open>DSCaptureDevice.cpp\<close>; its result is a
  field of the moniker it is called with.
\<close>

record moniker =
  moniker_id :: nat
  bindToObject_hr :: HRESULT
  queryInterface_hr :: HRESULT
  vfw_nonnull :: bool
  bindToStorage_hr :: HRESULT
  readFriendlyName_hr :: HRESULT
  readDevicePath_hr :: HRESULT
  friendlyName :: string
  devicePath :: string
  initDevice_hr :: HRESULT

record DSCaptureDevice =
  dev_name :: string
  dev_path :: string
  dev_moniker :: nat

datatype handle =
    DevEnum
  | MonikerEnum
  | Moniker nat
  | BaseFilter nat
  | VfwCaptureDialogs nat
  | PropertyBag nat

datatype event =
    CoInitializeEx HRESULT
  | CoUninitialize
  | Acquire handle
  | Release handle
  | New_device DSCaptureDevice
  | Delete_device DSCaptureDevice

record DSManager =
  m_devices :: "DSCaptureDevice list"
  coUninitialize :: bool
  events :: "event list"

text \<open>What the COM library answers to the manager: the environment of a run.\<close>

record com_system =
  coInitializeEx_hr :: HRESULT
  coCreateInstance_hr :: HRESULT
  createClassEnumerator_hr :: HRESULT
  monikers :: "moniker list"

definition emit :: "event \<Rightarrow> DSManager \<Rightarrow> DSManager" where
  "emit e s = s\<lparr>events := events s @ [e]\<rparr>"

text \<open>
  \<open>new DSCaptureDevice(name, path)\<close>: a plain \<open>new\<close> expression never yields a null
  pointer, so the test \<open>if(captureDevice)\<close> of the source always takes its first branch.
\<close>

definition new_DSCaptureDevice :: "moniker \<Rightarrow> DSCaptureDevice option" where
  "new_DSCaptureDevice mk =
     Some \<lparr>dev_name = friendlyName mk, dev_path = devicePath mk, dev_moniker = moniker_id mk\<rparr>"

subsection \<open>initCaptureDevices\<close>

text \<open>
  Lines 79 to 85: the list is cleaned up in case of reinitialization. Every record is
  deleted, then the list is cleared.
\<close>

definition delete_devices :: "DSManager \<Rightarrow> DSManager" where
  "delete_devices s =
     s\<lparr>m_devices := [], events := events s @ map Delete_device (m_devices s)\<rparr>"

definition cleanup_devices :: "DSManager \<Rightarrow> DSManager" where
  "cleanup_devices s = (if length (m_devices s) > 0 then delete_devices s else s)"

text \<open>
  Lines 120 to 149: the probe for the Video for Windows capture dialogs. The boolean
  result says whether the \<open>continue\<close> of line 145 is taken.
\<close>

definition probe_vfw :: "moniker \<Rightarrow> DSManager \<Rightarrow> bool \<times> DSManager" where
  "probe_vfw mk s =
     (let i = moniker_id mk in
      if FAILED (bindToObject_hr mk) then (False, s)
      else
        let s1 = emit (Acquire (BaseFilter i)) s in
        if FAILED (queryInterface_hr mk) then (False, s1)
        else
          let s2 = (if vfw_nonnull mk then emit (Acquire (VfwCaptureDialogs i)) s1 else s1) in
          if vfw_nonnull mk
          then (True, emit (Release (BaseFilter i)) (emit (Release (VfwCaptureDialogs i)) s2))
          else (False, s2))"

text \<open>
  Lines 151 to 215: the rest of the loop body, for a moniker the probe did not skip.
  Each \<open>continue\<close> of the source ends the body with the state reached there.
\<close>

definition read_and_add :: "moniker \<Rightarrow> DSManager \<Rightarrow> DSManager" where
  "read_and_add mk s =
     (let i = moniker_id mk in
      if FAILED (bindToStorage_hr mk) then emit (Release (Moniker i)) s
      else
        let s1 = emit (Acquire (PropertyBag i)) s in
        if FAILED (readFriendlyName_hr mk)
        then emit (Release (Moniker i)) (emit (Release (PropertyBag i)) s1)
        else if FAILED (readDevicePath_hr mk)
        then emit (Release (Moniker i)) (emit (Release (PropertyBag i)) s1)
        else
          let s2 =
            (case new_DSCaptureDevice mk of
               Some captureDevice \<Rightarrow>
                 let s3 = emit (New_device captureDevice) s1 in
                 if SUCCEEDED (initDevice_hr mk)
                 then s3\<lparr>m_devices := m_devices s3 @ [captureDevice]\<rparr>
                 else emit (Delete_device captureDevice) s3
             | None \<Rightarrow> s1)
          in emit (Release (Moniker i)) (emit (Release (PropertyBag i)) s2))"

text \<open>
  One iteration of the loop of line 115: \<open>Next\<close> has handed out a reference to the
  moniker.
\<close>

definition loop_body :: "moniker \<Rightarrow> DSManager \<Rightarrow> DSManager" where
  "loop_body mk s =
     (case probe_vfw mk (emit (Acquire (Moniker (moniker_id mk))) s) of
        (True, s1) \<Rightarrow> s1
      | (False, s1) \<Rightarrow> read_and_add mk s1)"

text \<open>
  The moniker enumerator is the list of the monikers it has still to hand out: \<open>Next\<close>
  answers \<open>S_OK\<close> with the head of a non-empty list and \<open>S_FALSE\<close> on the empty one.
\<close>

fun enum_loop :: "moniker list \<Rightarrow> DSManager \<Rightarrow> DSManager" where
  "enum_loop [] s = s"
| "enum_loop (mk # mks) s = enum_loop mks (loop_body mk s)"

definition initCaptureDevices :: "com_system \<Rightarrow> DSManager \<Rightarrow> DSManager" where
  "initCaptureDevices sys s0 =
     (let s = cleanup_devices s0 in
      if FAILED (coCreateInstance_hr sys) then s
      else
        let s1 = emit (Acquire DevEnum) s;
            ret = createClassEnumerator_hr sys
        in
        if FAILED ret \<or> ret = S_FALSE then emit (Release DevEnum) s1
        else
          let s2 = emit (Acquire MonikerEnum) s1;
              s3 = enum_loop (monikers sys) s2
          in emit (Release DevEnum) (emit (Release MonikerEnum) s3))"

subsection \<open>Constructor and destructor\<close>

text \<open>
  The constructor runs on an empty device list. Whatever \<open>CoInitializeEx\<close> answered,
  its last statement sets \<open>_coUninitialize\<close> to \<open>false\<close> (line 47).
\<close>

definition DSManager_ctor :: "com_system \<Rightarrow> DSManager" where
  "DSManager_ctor sys =
     (let hr = coInitializeEx_hr sys;
          s0 = \<lparr>m_devices = [], coUninitialize = False, events = [CoInitializeEx hr]\<rparr>;
          s1 = (if SUCCEEDED hr then initCaptureDevices sys s0 else s0)
      in s1\<lparr>coUninitialize := False\<rparr>)"

definition DSManager_dtor :: "DSManager \<Rightarrow> DSManager" where
  "DSManager_dtor s =
     (let s1 = delete_devices s in
      if coUninitialize s1 then emit CoUninitialize s1 else s1)"

definition getDevices :: "DSManager \<Rightarrow> DSCaptureDevice list" where
  "getDevices s = m_devices s"

section \<open>CoreAudio JNI utilities (maccoreaudio_util.c)\<close>

text \<open>
  Pointers (\<open>JavaVM *\<close>, \<open>jclass\<close>, \<open>jmethodID\<close>, \<open>jobject\<close>) are natural numbers, 0 being
  \<open>NULL\<close>. The three static variables of the file and the attachment of the calling
  thread form the state; the state also lists the JNI and native calls made so far.
\<close>

type_synonym jbyte = "8 word"

datatype jvalue = JByteArray "jbyte list" | JInt int | JString string

datatype jni_call =
    GetEnv int
  | AttachCurrentThreadAsDaemon int
  | DetachCurrentThread
  | FindClass string
  | NewGlobalRef nat
  | DeleteGlobalRef nat
  | GetStaticMethodID nat string string
  | GetObjectClass nat
  | GetMethodID nat string string
  | CallStaticVoidMethod nat nat "jvalue list"
  | CallVoidMethod nat nat "jvalue list"
  | InitializeHotplug
  | UninitializeHotplug
  | Fprintf_stderr string "string list"

text \<open>
  What the managed runtime answers during one native call. \<open>managed_callback\<close> gives
  the contents of the byte array after the managed method has run on it.
\<close>

record jvm =
  version_supported :: bool
  attach_result :: int
  find_class :: "string \<Rightarrow> nat"
  new_global_ref :: "nat \<Rightarrow> nat"
  get_static_method_id :: "nat \<Rightarrow> string \<Rightarrow> string \<Rightarrow> nat"
  get_object_class :: "nat \<Rightarrow> nat"
  get_method_id :: "nat \<Rightarrow> string \<Rightarrow> string \<Rightarrow> nat"
  managed_callback :: "nat \<Rightarrow> nat \<Rightarrow> jbyte list \<Rightarrow> nat \<Rightarrow> jbyte list"

record world =
  MacCoreaudio_VM :: nat
  MacCoreaudio_devicesChangedCallbackClass :: nat
  MacCoreaudio_devicesChangedCallbackMethodID :: nat
  attached :: bool
  calls :: "jni_call list"

definition initial_world :: world where
  "initial_world =
     \<lparr>MacCoreaudio_VM = 0,
      MacCoreaudio_devicesChangedCallbackClass = 0,
      MacCoreaudio_devicesChangedCallbackMethodID = 0,
      attached = False,
      calls = []\<rparr>"

definition call :: "jni_call \<Rightarrow> world \<Rightarrow> world" where
  "call c w = w\<lparr>calls := calls w @ [c]\<rparr>"

subsection \<open>The constants of jni.h and the answer of GetEnv\<close>

definition JNI_OK :: int where
  "JNI_OK = 0"

definition JNI_EDETACHED :: int where
  "JNI_EDETACHED = - 2"

definition JNI_EVERSION :: int where
  "JNI_EVERSION = - 3"

definition getEnv :: "jvm \<Rightarrow> world \<Rightarrow> int" where
  "getEnv rt w =
     (if \<not> attached w then JNI_EDETACHED
      else if \<not> version_supported rt then JNI_EVERSION
      else JNI_OK)"

subsection \<open>The macros ATTACH and DETACH\<close>

text \<open>
  \<open>ATTACH\<close> declares the locals \<open>envAttached\<close> and \<open>shouldDetach\<close>, here the record
  \<open>guard\<close>. Both macros dereference \<open>MacCoreaudio_VM\<close>: on a null pointer the process
  crashes, which is the result \<open>None\<close>.
\<close>

record guard =
  envAttached :: int
  shouldDetach :: int

definition ATTACH :: "jvm \<Rightarrow> world \<Rightarrow> (guard \<times> world) option" where
  "ATTACH rt w =
     (if MacCoreaudio_VM w = 0 then None
      else
        let getEnvRes = getEnv rt w;
            w1 = call (GetEnv getEnvRes) w
        in
        if getEnvRes = JNI_EDETACHED then
          (let w2 = call (AttachCurrentThreadAsDaemon (attach_result rt)) w1 in
           if attach_result rt = 0
           then Some (\<lparr>envAttached = 1, shouldDetach = 1\<rparr>, w2\<lparr>attached := True\<rparr>)
           else Some (\<lparr>envAttached = 0, shouldDetach = 0\<rparr>, w2))
        else if getEnvRes = JNI_OK
        then Some (\<lparr>envAttached = 1, shouldDetach = 0\<rparr>, w1)
        else Some (\<lparr>envAttached = 0, shouldDetach = 0\<rparr>, w1))"

definition DETACH :: "guard \<Rightarrow> world \<Rightarrow> world" where
  "DETACH g w =
     (if shouldDetach g = 1 then (call DetachCurrentThread w)\<lparr>attached := False\<rparr> else w)"

subsection \<open>MacCoreaudio_log\<close>

text \<open>
  The argument \<open>msg\<close> is the text the format and its arguments expand to;
  \<open>vsnprintf\<close> keeps at most 2047 characters of it. \<open>str_bytes\<close> is the new byte array
  filled by \<open>SetByteArrayRegion\<close>.
\<close>

definition vsnprintf :: "nat \<Rightarrow> string \<Rightarrow> string" where
  "vsnprintf n msg = take (n - 1) msg"

definition str_bytes :: "string \<Rightarrow> jbyte list" where
  "str_bytes str = map (\<lambda>c. of_nat (of_char c)) str"

definition CoreAudioDevice :: string where
  "CoreAudioDevice = ''org/jitsi/impl/neomedia/device/CoreAudioDevice''"

definition MacCoreaudio_log :: "jvm \<Rightarrow> string \<Rightarrow> world \<Rightarrow> world option" where
  "MacCoreaudio_log rt msg w =
     (case ATTACH rt w of
        None \<Rightarrow> None
      | Some (g, w1) \<Rightarrow>
          if envAttached g = 0 then Some w1
          else
            let clazz = find_class rt CoreAudioDevice;
                w2 = call (FindClass CoreAudioDevice) w1;
                w3 =
                  (if clazz \<noteq> 0 then
                     let methodID = get_static_method_id rt clazz ''log'' ''([B)V'';
                         w4 = call (GetStaticMethodID clazz ''log'' ''([B)V'') w2;
                         error = vsnprintf 2048 msg;
                         bufferBytes = str_bytes error
                     in call (CallStaticVoidMethod clazz methodID [JByteArray bufferBytes]) w4
                   else w2)
            in Some (DETACH g w3))"

subsection \<open>MacCoreaudio_callbackMethod\<close>

text \<open>
  The native buffer is the list of the bytes at \<open>buffer\<close>; the function returns it
  together with the state. \<open>NewByteArray\<close> gives an array of zeros,
  \<open>SetByteArrayRegion\<close> and \<open>memcpy\<close> overwrite the first \<open>n\<close> bytes of their target.
  Allocation in the runtime is taken to succeed, as the source takes it, and the length
  is a natural number. A \<open>bufferLength\<close> beyond the bytes of the buffer makes
  \<open>SetByteArrayRegion\<close> read out of range, which is the result \<open>None\<close>.
\<close>

definition NewByteArray :: "nat \<Rightarrow> jbyte list" where
  "NewByteArray n = replicate n 0"

definition memcpy :: "jbyte list \<Rightarrow> jbyte list \<Rightarrow> nat \<Rightarrow> jbyte list" where
  "memcpy dst src n = take n src @ drop n dst"

definition SetByteArrayRegion :: "jbyte list \<Rightarrow> nat \<Rightarrow> jbyte list \<Rightarrow> jbyte list" where
  "SetByteArrayRegion array n buf = memcpy array buf n"

definition MacCoreaudio_callbackMethod ::
  "jvm \<Rightarrow> jbyte list \<Rightarrow> nat \<Rightarrow> nat \<Rightarrow> nat \<Rightarrow> world \<Rightarrow> (jbyte list \<times> world) option" where
  "MacCoreaudio_callbackMethod rt buffer bufferLength callback callbackMethod w =
     (case ATTACH rt w of
        None \<Rightarrow> None
      | Some (g, w1) \<Rightarrow>
          if envAttached g = 0 then Some (buffer, w1)
          else if length buffer < bufferLength then None
          else
            let bufferBytes = SetByteArrayRegion (NewByteArray bufferLength) bufferLength buffer;
                w2 = call (CallVoidMethod callback callbackMethod
                             [JByteArray bufferBytes, JInt (int bufferLength)]) w1;
                bytes = managed_callback rt callback callbackMethod bufferBytes bufferLength
            in Some (memcpy buffer bytes bufferLength, DETACH g w2))"

subsection \<open>Hotplug\<close>

definition MacCoreaudio_devicesChangedCallbackMethod :: "jvm \<Rightarrow> world \<Rightarrow> world option" where
  "MacCoreaudio_devicesChangedCallbackMethod rt w =
     (case MacCoreaudio_log rt
             ''MacCoreAudio_util_devicesChangedCallbackMethod: Notified that devices have changed'' w of
        None \<Rightarrow> None
      | Some w0 \<Rightarrow>
          (case ATTACH rt w0 of
             None \<Rightarrow> None
           | Some (g, w1) \<Rightarrow>
               if envAttached g = 0 then Some w1
               else
                 let class = MacCoreaudio_devicesChangedCallbackClass w1;
                     methodID = MacCoreaudio_devicesChangedCallbackMethodID w1;
                     w2 = (if class \<noteq> 0 \<and> methodID \<noteq> 0
                           then call (CallStaticVoidMethod class methodID []) w1
                           else w1)
                 in Some (DETACH g w2)))"

text \<open>Lines 223 to 256: the body guarded by \<open>envAttached\<close>.\<close>

definition resolve_hotplug :: "jvm \<Rightarrow> world \<Rightarrow> world" where
  "resolve_hotplug rt w =
     (if MacCoreaudio_devicesChangedCallbackClass w = 0
         \<and> MacCoreaudio_devicesChangedCallbackMethodID w = 0
      then
        let devicesChangedCallbackClass = find_class rt CoreAudioDevice;
            w1 = call (FindClass CoreAudioDevice) w
        in
        if devicesChangedCallbackClass \<noteq> 0 then
          let globalClass = new_global_ref rt devicesChangedCallbackClass;
              w2 = call (NewGlobalRef devicesChangedCallbackClass) w1
          in
          if globalClass \<noteq> 0 then
            let devicesChangedCallbackMethodID =
                  get_static_method_id rt globalClass ''devicesChangedCallback'' ''()V'';
                w3 = call (GetStaticMethodID globalClass ''devicesChangedCallback'' ''()V'') w2
            in
            if devicesChangedCallbackMethodID \<noteq> 0 then
              call InitializeHotplug
                (w3\<lparr>MacCoreaudio_devicesChangedCallbackClass := globalClass,
                    MacCoreaudio_devicesChangedCallbackMethodID := devicesChangedCallbackMethodID\<rparr>)
            else w3
          else w2
        else w1
      else w)"

definition MacCoreaudio_initHotplug :: "jvm \<Rightarrow> world \<Rightarrow> world option" where
  "MacCoreaudio_initHotplug rt w =
     (case MacCoreaudio_log rt ''MacCoreAudio_util_initHotplug: Initializing device hotplug'' w of
        None \<Rightarrow> None
      | Some w0 \<Rightarrow>
          (case ATTACH rt w0 of
             None \<Rightarrow> None
           | Some (g, w1) \<Rightarrow>
               Some (DETACH g (if envAttached g \<noteq> 0 then resolve_hotplug rt w1 else w1))))"

definition MacCoreaudio_freeHotplug :: "jvm \<Rightarrow> world \<Rightarrow> world option" where
  "MacCoreaudio_freeHotplug rt w =
     (case MacCoreaudio_log rt
             ''MacCoreAudio_util_freeHotplug: Freeing device hotplug callback process'' w of
        None \<Rightarrow> None
      | Some w0 \<Rightarrow>
          (case ATTACH rt (call UninitializeHotplug w0) of
             None \<Rightarrow> None
           | Some (g, w1) \<Rightarrow>
               let w2 =
                 (if envAttached g = 0 then w1
                  else DETACH g
                         (call (DeleteGlobalRef (MacCoreaudio_devicesChangedCallbackClass w1)) w1))
               in Some (w2\<lparr>MacCoreaudio_devicesChangedCallbackClass := 0,
                           MacCoreaudio_devicesChangedCallbackMethodID := 0\<rparr>)))"

subsection \<open>Module load and unload\<close>

definition JNI_OnLoad :: "jvm \<Rightarrow> nat \<Rightarrow> world \<Rightarrow> world option" where
  "JNI_OnLoad rt vm w =
     (case MacCoreaudio_log rt ''MacCoreAudio_util: JNI loaded'' (w\<lparr>MacCoreaudio_VM := vm\<rparr>) of
        None \<Rightarrow> None
      | Some w1 \<Rightarrow> MacCoreaudio_initHotplug rt w1)"

definition JNI_OnUnload :: "jvm \<Rightarrow> world \<Rightarrow> world option" where
  "JNI_OnUnload rt w =
     (case MacCoreaudio_log rt ''MacCoreAudio_util: JNI unloading'' w of
        None \<Rightarrow> None
      | Some w1 \<Rightarrow>
          (case MacCoreaudio_freeHotplug rt w1 of
             None \<Rightarrow> None
           | Some w2 \<Rightarrow> Some (w2\<lparr>MacCoreaudio_VM := 0\<rparr>)))"

subsection \<open>Sequences of operations\<close>

text \<open>
  An invocation names the entry point, what the runtime answers during it, and whether
  the thread it runs on is attached to the runtime when it starts.
\<close>

datatype operation =
    Op_OnLoad nat
  | Op_OnUnload
  | Op_initHotplug
  | Op_freeHotplug
  | Op_devicesChanged
  | Op_log string
  | Op_callback "jbyte list" nat nat nat

record invocation =
  operation_of :: operation
  runtime_of :: jvm
  thread_attached :: bool

definition exec :: "invocation \<Rightarrow> world \<Rightarrow> world option" where
  "exec i w0 =
     (let rt = runtime_of i; w = w0\<lparr>attached := thread_attached i\<rparr> in
      case operation_of i of
        Op_OnLoad vm \<Rightarrow> JNI_OnLoad rt vm w
      | Op_OnUnload \<Rightarrow> JNI_OnUnload rt w
      | Op_initHotplug \<Rightarrow> MacCoreaudio_initHotplug rt w
      | Op_freeHotplug \<Rightarrow> MacCoreaudio_freeHotplug rt w
      | Op_devicesChanged \<Rightarrow> MacCoreaudio_devicesChangedCallbackMethod rt w
      | Op_log msg \<Rightarrow> MacCoreaudio_log rt msg w
      | Op_callback buffer bufferLength callback callbackMethod \<Rightarrow>
          map_option snd (MacCoreaudio_callbackMethod rt buffer bufferLength callback callbackMethod w))"

fun run :: "invocation list \<Rightarrow> world \<Rightarrow> world option" where
  "run [] w = Some w"
| "run (i # is) w = (case exec i w of None \<Rightarrow> None | Some w1 \<Rightarrow> run is w1)"

definition hotplug_inv :: "world \<Rightarrow> bool" where
  "hotplug_inv w =
     ((MacCoreaudio_devicesChangedCallbackClass w = 0)
      = (MacCoreaudio_devicesChangedCallbackMethodID w = 0))"

section \<open>The logger of the DirectShow module (JavaLogger.h)\<close>

text \<open>
  \<open>JavaLogger::log\<close> works on the \<open>JNIEnv\<close> and the logger object stored in the
  instance; it is given here the runtime's answers, the logger object and the list of
  the calls made so far, and returns that list extended. A call of \<open>fprintf\<close> on
  \<open>stderr\<close> is recorded with the format string and the arguments it is given, not with
  the text it prints: lines 27 and 35 pass the message itself as the format.
\<close>

definition JavaLogger_log :: "jvm \<Rightarrow> nat \<Rightarrow> string \<Rightarrow> string \<Rightarrow> jni_call list \<Rightarrow> jni_call list" where
  "JavaLogger_log rt logger level message cs =
     (let cls = get_object_class rt logger;
          cs1 = cs @ [GetObjectClass logger]
      in
      if cls = 0
      then cs1 @ [Fprintf_stderr ''Failed to find class for JavaLogger \<newline>'' [],
                  Fprintf_stderr message []]
      else
        let mid = get_method_id rt cls level ''(Ljava/lang/Object;)V'';
            cs2 = cs1 @ [GetMethodID cls level ''(Ljava/lang/Object;)V'']
        in
        if mid = 0
        then cs2 @ [Fprintf_stderr ''Failed to find method for JavaLogger with level: %s \<newline>''
                      [level],
                    Fprintf_stderr message []]
        else cs2 @ [CallVoidMethod logger mid [JString message]])"

section \<open>Notions of the specification and example inputs\<close>

text \<open>
  The specification's words for a candidate device, written over the answers of its
  moniker: a legacy device is one on which the probe for the capture dialogs succeeds;
  its identity properties are read when the property bag is obtained and both reads
  succeed; it is accepted when it is not legacy, its properties are read and its native
  binding initializes. \<open>device_of\<close> is the record the enumeration builds for it.
\<close>

definition is_legacy :: "moniker \<Rightarrow> bool" where
  "is_legacy mk =
     (SUCCEEDED (bindToObject_hr mk) \<and> SUCCEEDED (queryInterface_hr mk) \<and> vfw_nonnull mk)"

definition props_read :: "moniker \<Rightarrow> bool" where
  "props_read mk =
     (SUCCEEDED (bindToStorage_hr mk) \<and> SUCCEEDED (readFriendlyName_hr mk)
      \<and> SUCCEEDED (readDevicePath_hr mk))"

definition accepted :: "moniker \<Rightarrow> bool" where
  "accepted mk = (\<not> is_legacy mk \<and> props_read mk \<and> SUCCEEDED (initDevice_hr mk))"

definition device_of :: "moniker \<Rightarrow> DSCaptureDevice" where
  "device_of mk =
     \<lparr>dev_name = friendlyName mk, dev_path = devicePath mk, dev_moniker = moniker_id mk\<rparr>"

text \<open>
  A manager with an empty list that has made no call yet, and a run replayed on top of
  another manager: its records and calls come after those already there.
\<close>

definition fresh_manager :: DSManager where
  "fresh_manager = \<lparr>m_devices = [], coUninitialize = False, events = []\<rparr>"

definition rebase :: "DSManager \<Rightarrow> DSManager \<Rightarrow> DSManager" where
  "rebase s r =
     \<lparr>m_devices = m_devices s @ m_devices r, coUninitialize = coUninitialize s,
      events = events s @ events r\<rparr>"

text \<open>
  An ordinary camera (it binds to a filter that has no capture-dialogs interface), a
  Video for Windows device, and a COM library in which every call succeeds.
\<close>

definition webcam :: "nat \<Rightarrow> moniker" where
  "webcam i =
     \<lparr>moniker_id = i, bindToObject_hr = S_OK, queryInterface_hr = E_NOINTERFACE,
      vfw_nonnull = False, bindToStorage_hr = S_OK, readFriendlyName_hr = S_OK,
      readDevicePath_hr = S_OK, friendlyName = ''Webcam'', devicePath = ''usb#cam'',
      initDevice_hr = S_OK\<rparr>"

definition vfw_device :: "nat \<Rightarrow> moniker" where
  "vfw_device i =
     \<lparr>moniker_id = i, bindToObject_hr = S_OK, queryInterface_hr = S_OK,
      vfw_nonnull = True, bindToStorage_hr = S_OK, readFriendlyName_hr = S_OK,
      readDevicePath_hr = S_OK, friendlyName = ''VfW driver'', devicePath = ''vfw#0'',
      initDevice_hr = S_OK\<rparr>"

definition com_with :: "moniker list \<Rightarrow> com_system" where
  "com_with mks =
     \<lparr>coInitializeEx_hr = S_OK, coCreateInstance_hr = S_OK,
      createClassEnumerator_hr = S_OK, monikers = mks\<rparr>"

text \<open>
  Counting the calls of a state: detaches, successful attaches, the two steps that
  resolve the hotplug target (the global reference to the class and the lookup of
  \<open>devicesChangedCallback\<close>), registrations with the native subsystem, and calls into
  managed code.
\<close>

definition detaches :: "world \<Rightarrow> nat" where
  "detaches w = count_list (calls w) DetachCurrentThread"

definition attaches :: "world \<Rightarrow> nat" where
  "attaches w = count_list (calls w) (AttachCurrentThreadAsDaemon 0)"

fun is_class_resolution :: "jni_call \<Rightarrow> bool" where
  "is_class_resolution (NewGlobalRef c) = True"
| "is_class_resolution _ = False"

fun is_method_resolution :: "jni_call \<Rightarrow> bool" where
  "is_method_resolution (GetStaticMethodID c name sig) = (name = ''devicesChangedCallback'')"
| "is_method_resolution _ = False"

fun is_managed_call :: "jni_call \<Rightarrow> bool" where
  "is_managed_call (CallVoidMethod obj mid args) = True"
| "is_managed_call (CallStaticVoidMethod cls mid args) = True"
| "is_managed_call _ = False"

definition class_resolutions :: "world \<Rightarrow> nat" where
  "class_resolutions w = length (filter is_class_resolution (calls w))"

definition method_resolutions :: "world \<Rightarrow> nat" where
  "method_resolutions w = length (filter is_method_resolution (calls w))"

definition registrations :: "world \<Rightarrow> nat" where
  "registrations w = count_list (calls w) InitializeHotplug"

text \<open>
  A runtime context is available to a call when the thread holds one already or can be
  attached. The three static variables are the same in two states. An invocation leaves
  the thread attached: a thread that held a context on entry holds it on return and has
  not been detached, and the invocation detached as often as it attached.
\<close>

definition context_available :: "jvm \<Rightarrow> world \<Rightarrow> bool" where
  "context_available rt w =
     (getEnv rt w = JNI_OK \<or> (getEnv rt w = JNI_EDETACHED \<and> attach_result rt = 0))"

definition same_globals :: "world \<Rightarrow> world \<Rightarrow> bool" where
  "same_globals w w' =
     (MacCoreaudio_VM w' = MacCoreaudio_VM w
      \<and> MacCoreaudio_devicesChangedCallbackClass w' = MacCoreaudio_devicesChangedCallbackClass w
      \<and> MacCoreaudio_devicesChangedCallbackMethodID w'
          = MacCoreaudio_devicesChangedCallbackMethodID w)"

definition left_attached :: "jvm \<Rightarrow> world \<Rightarrow> world \<Rightarrow> bool" where
  "left_attached rt w w' =
     ((getEnv rt w = JNI_OK \<longrightarrow> getEnv rt w' = JNI_OK \<and> detaches w' = detaches w)
      \<and> detaches w' + attaches w = attaches w' + detaches w)"

text \<open>
  Example runtimes and states: a runtime that resolves everything, one whose class has
  no \<open>log\<close> method, one that refuses to attach a thread; a loaded module on an
  attached thread and on a thread that is not attached.
\<close>

definition good_rt :: jvm where
  "good_rt =
     \<lparr>version_supported = True, attach_result = 0,
      find_class = (\<lambda>name. 7), new_global_ref = (\<lambda>c. 8),
      get_static_method_id = (\<lambda>c name sig. 9),
      get_object_class = (\<lambda>obj. 3), get_method_id = (\<lambda>c name sig. 4),
      managed_callback = (\<lambda>obj mid bytes n. bytes)\<rparr>"

definition no_log_rt :: jvm where
  "no_log_rt =
     good_rt\<lparr>get_static_method_id := (\<lambda>c name sig. if name = ''log'' then 0 else 9)\<rparr>"

definition detached_rt :: jvm where
  "detached_rt = good_rt\<lparr>attach_result := - 1\<rparr>"

definition loaded_world :: world where
  "loaded_world = initial_world\<lparr>MacCoreaudio_VM := 1, attached := True\<rparr>"

definition unattached_world :: world where
  "unattached_world = initial_world\<lparr>MacCoreaudio_VM := 1\<rparr>"

definition on_thread :: "operation \<Rightarrow> jvm \<Rightarrow> bool \<Rightarrow> invocation" where
  "on_thread opn rt b = \<lparr>operation_of = opn, runtime_of = rt, thread_attached = b\<rparr>"

section \<open>Properties of the device manager\<close>

lemmas body_defs = loop_body_def probe_vfw_def read_and_add_def new_DSCaptureDevice_def
  emit_def Let_def SUCCEEDED_def FAILED_def

lemmas run_defs = DSManager_ctor_def DSManager_dtor_def initCaptureDevices_def
  cleanup_devices_def delete_devices_def com_with_def webcam_def vfw_device_def
  S_OK_def S_FALSE_def E_NOINTERFACE_def body_defs

lemma m_devices_emit: "m_devices (emit e s) = m_devices s"
  by (simp add: emit_def)

lemma emit_rebase: "emit e (rebase s r) = rebase s (emit e r)"
  by (simp add: emit_def rebase_def)

subsection \<open>The device list after an enumeration\<close>

lemma m_devices_loop_body:
  "m_devices (loop_body mk s) = m_devices s @ (if accepted mk then [device_of mk] else [])"
  by (simp add: body_defs accepted_def is_legacy_def props_read_def device_of_def)

lemma m_devices_enum_loop:
  "m_devices (enum_loop mks s) = m_devices s @ map device_of (filter accepted mks)"
  by (induction mks arbitrary: s) (simp_all add: m_devices_loop_body)

lemma m_devices_init:
  assumes "\<not> FAILED (coCreateInstance_hr sys)"
      and "\<not> (FAILED (createClassEnumerator_hr sys) \<or> createClassEnumerator_hr sys = S_FALSE)"
  shows "m_devices (initCaptureDevices sys s) = map device_of (filter accepted (monikers sys))"
  using assms
  by (simp add: initCaptureDevices_def cleanup_devices_def delete_devices_def Let_def
      m_devices_emit m_devices_enum_loop)

lemma enumeration_unavailable_gives_empty:
  assumes "FAILED (coCreateInstance_hr sys) \<or> FAILED (createClassEnumerator_hr sys)
           \<or> createClassEnumerator_hr sys = S_FALSE"
  shows "m_devices (initCaptureDevices sys s) = []"
  using assms
  by (auto simp add: initCaptureDevices_def cleanup_devices_def delete_devices_def Let_def
      m_devices_emit)

text \<open>
  C8. When the device enumerator and the moniker enumerator of the capture category are
  obtained, the list left by \<open>initCaptureDevices\<close> holds, for whatever list was there
  before, exactly the records of the accepted candidates (not legacy, both identity
  properties read, native binding initialized), in the order of the enumeration. So one
  legacy device among two accepted ones, at any of the three positions, leaves the two
  accepted ones in their order.
\<close>

theorem enumerate_returns_accepted_in_order:
  assumes "\<not> FAILED (coCreateInstance_hr sys)"
      and "\<not> (FAILED (createClassEnumerator_hr sys) \<or> createClassEnumerator_hr sys = S_FALSE)"
  shows "getDevices (initCaptureDevices sys s) = map device_of (filter accepted (monikers sys))
    \<and> (is_legacy l \<and> accepted p \<and> accepted q
         \<and> (monikers sys = [l, p, q] \<or> monikers sys = [p, l, q] \<or> monikers sys = [p, q, l])
        \<longrightarrow> getDevices (initCaptureDevices sys s) = [device_of p, device_of q])"
proof -
  have all: "getDevices (initCaptureDevices sys s) = map device_of (filter accepted (monikers sys))"
    using assms by (simp add: getDevices_def m_devices_init)
  have "\<not> accepted l" if "is_legacy l"
    using that by (simp add: accepted_def)
  then show ?thesis
    using all by auto
qed

theorem enumerate_returns_accepted_in_order_witness:
  "\<not> FAILED (coCreateInstance_hr (com_with [webcam 1, vfw_device 0, webcam 2]))
   \<and> \<not> (FAILED (createClassEnumerator_hr (com_with [webcam 1, vfw_device 0, webcam 2]))
         \<or> createClassEnumerator_hr (com_with [webcam 1, vfw_device 0, webcam 2]) = S_FALSE)
   \<and> is_legacy (vfw_device 0) \<and> accepted (webcam 1) \<and> accepted (webcam 2)
   \<and> getDevices (initCaptureDevices (com_with [webcam 1, vfw_device 0, webcam 2])
                   (DSManager_ctor (com_with [webcam 5])))
       = [device_of (webcam 1), device_of (webcam 2)]"
proof -
  let ?sys = "com_with [webcam 1, vfw_device 0, webcam 2]"
  have a: "\<not> FAILED (coCreateInstance_hr ?sys)"
    by (simp add: com_with_def FAILED_def S_OK_def)
  have b: "\<not> (FAILED (createClassEnumerator_hr ?sys) \<or> createClassEnumerator_hr ?sys = S_FALSE)"
    by (simp add: com_with_def FAILED_def S_OK_def S_FALSE_def)
  have c: "is_legacy (vfw_device 0) \<and> accepted (webcam 1) \<and> accepted (webcam 2)"
    by (simp add: is_legacy_def accepted_def props_read_def vfw_device_def webcam_def
        SUCCEEDED_def S_OK_def E_NOINTERFACE_def)
  have d: "monikers ?sys = [webcam 1, vfw_device 0, webcam 2]"
    by (simp add: com_with_def)
  have imp: "is_legacy (vfw_device 0) \<and> accepted (webcam 1) \<and> accepted (webcam 2)
         \<and> (monikers ?sys = [vfw_device 0, webcam 1, webcam 2]
              \<or> monikers ?sys = [webcam 1, vfw_device 0, webcam 2]
              \<or> monikers ?sys = [webcam 1, webcam 2, vfw_device 0])
        \<longrightarrow> getDevices (initCaptureDevices ?sys (DSManager_ctor (com_with [webcam 5])))
             = [device_of (webcam 1), device_of (webcam 2)]"
    using enumerate_returns_accepted_in_order
            [OF a b, where l = "vfw_device 0" and p = "webcam 1" and q = "webcam 2"
               and s = "DSManager_ctor (com_with [webcam 5])"]
    by (rule conjunct2)
  have e: "getDevices (initCaptureDevices ?sys (DSManager_ctor (com_with [webcam 5])))
             = [device_of (webcam 1), device_of (webcam 2)]"
    by (rule mp [OF imp]) (simp only: c d simp_thms)
  show ?thesis
    using a b c e by blast
qed

subsection \<open>Reinitialization\<close>

lemma loop_body_rebase: "loop_body mk (rebase s r) = rebase s (loop_body mk r)"
  by (simp add: body_defs rebase_def)

lemma enum_loop_rebase: "enum_loop mks (rebase s r) = rebase s (enum_loop mks r)"
  by (induction mks arbitrary: r) (simp_all add: loop_body_rebase)

lemma cleanup_as_rebase: "cleanup_devices s = rebase (cleanup_devices s) fresh_manager"
  by (simp add: rebase_def fresh_manager_def)

lemma init_on_empty_rebase:
  assumes "m_devices s = []" and "m_devices r = []"
  shows "initCaptureDevices sys (rebase s r) = rebase s (initCaptureDevices sys r)"
proof -
  have c1: "cleanup_devices (rebase s r) = rebase s r"
    using assms by (simp add: cleanup_devices_def rebase_def)
  have c2: "cleanup_devices r = r"
    using assms by (simp add: cleanup_devices_def)
  show ?thesis
    unfolding initCaptureDevices_def c1 c2 Let_def
    by (simp add: emit_rebase enum_loop_rebase)
qed

lemma enum_loop_after_acquires:
  "enum_loop mks (emit (Acquire MonikerEnum) (emit (Acquire DevEnum) fresh_manager))
     = rebase (emit (Acquire MonikerEnum) (emit (Acquire DevEnum) fresh_manager))
         (enum_loop mks fresh_manager)"
proof -
  let ?x = "emit (Acquire MonikerEnum) (emit (Acquire DevEnum) fresh_manager)"
  have "?x = rebase ?x fresh_manager"
    by (simp add: rebase_def fresh_manager_def emit_def)
  then have "enum_loop mks ?x = enum_loop mks (rebase ?x fresh_manager)"
    by simp
  then show ?thesis
    by (simp only: enum_loop_rebase)
qed

lemma events_init_fresh:
  "events (initCaptureDevices sys fresh_manager)
     = (if FAILED (coCreateInstance_hr sys) then []
        else if FAILED (createClassEnumerator_hr sys) \<or> createClassEnumerator_hr sys = S_FALSE
        then [Acquire DevEnum, Release DevEnum]
        else [Acquire DevEnum, Acquire MonikerEnum]
             @ events (enum_loop (monikers sys) fresh_manager)
             @ [Release MonikerEnum, Release DevEnum])"
proof -
  have c: "cleanup_devices fresh_manager = fresh_manager"
    by (simp add: cleanup_devices_def fresh_manager_def)
  have e: "events (emit (Acquire MonikerEnum) (emit (Acquire DevEnum) fresh_manager))
             = [Acquire DevEnum, Acquire MonikerEnum]"
    by (simp add: emit_def fresh_manager_def)
  have ee: "events (emit x t) = events t @ [x]" for x t
    by (simp add: emit_def)
  have ef: "events fresh_manager = []"
    by (simp add: fresh_manager_def)
  show ?thesis
    unfolding initCaptureDevices_def c Let_def
    by (simp add: enum_loop_after_acquires e rebase_def ee ef)
qed


lemma m_devices_init_any:
  "m_devices (initCaptureDevices sys s)
     = (if FAILED (coCreateInstance_hr sys) \<or> FAILED (createClassEnumerator_hr sys)
           \<or> createClassEnumerator_hr sys = S_FALSE
        then [] else map device_of (filter accepted (monikers sys)))"
  using m_devices_init [of sys s] enumeration_unavailable_gives_empty [of sys s]
  by (simp split: if_splits)

lemma reinit_replays_fresh:
  "initCaptureDevices sys s = rebase (cleanup_devices s) (initCaptureDevices sys fresh_manager)"
proof -
  let ?c = "cleanup_devices s"
  have 3: "m_devices ?c = []"
    by (simp add: cleanup_devices_def delete_devices_def)
  have f: "m_devices fresh_manager = []"
    by (simp add: fresh_manager_def)
  have "initCaptureDevices sys s = initCaptureDevices sys ?c"
    by (simp add: initCaptureDevices_def cleanup_devices_def delete_devices_def)
  also have "\<dots> = initCaptureDevices sys (rebase ?c fresh_manager)"
    using cleanup_as_rebase [of s] by simp
  also have "\<dots> = rebase ?c (initCaptureDevices sys fresh_manager)"
    by (rule init_on_empty_rebase [OF 3 f])
  finally show ?thesis .
qed

text \<open>
  C9. The calls of a reinitialization are the calls made before it, then one deletion
  for every record of the current list, in the order of the list, then the calls of
  the enumeration: none when the device enumerator is not obtained, its acquisition and
  release when the moniker enumerator is not obtained, and otherwise the two
  acquisitions, the calls of the loop over the monikers, and the two releases. These
  are exactly the calls of an initialization of a fresh manager (empty list, no call
  made). The list left is the list that initialization leaves: the records of the
  accepted candidates in the order of the enumeration, or the empty list when an
  enumerator is not obtained; no record of the old list is in it but by being
  enumerated again. The prologue empties the list, records the deletions, and leaves
  the manager as it is exactly when the list is empty.
\<close>

theorem reinitialization_destroys_then_enumerates:
  "events (initCaptureDevices sys s)
     = events s @ map Delete_device (m_devices s)
       @ events (initCaptureDevices sys fresh_manager)
   \<and> m_devices (initCaptureDevices sys s) = m_devices (initCaptureDevices sys fresh_manager)
   \<and> m_devices (cleanup_devices s) = []
   \<and> events (cleanup_devices s) = events s @ map Delete_device (m_devices s)
   \<and> ((cleanup_devices s = s) = (m_devices s = []))
   \<and> events (initCaptureDevices sys s)
     = events s @ map Delete_device (m_devices s)
       @ (if FAILED (coCreateInstance_hr sys) then []
          else if FAILED (createClassEnumerator_hr sys) \<or> createClassEnumerator_hr sys = S_FALSE
          then [Acquire DevEnum, Release DevEnum]
          else [Acquire DevEnum, Acquire MonikerEnum]
               @ events (enum_loop (monikers sys) fresh_manager)
               @ [Release MonikerEnum, Release DevEnum])
   \<and> m_devices (initCaptureDevices sys s)
     = (if FAILED (coCreateInstance_hr sys) \<or> FAILED (createClassEnumerator_hr sys)
           \<or> createClassEnumerator_hr sys = S_FALSE
        then [] else map device_of (filter accepted (monikers sys)))"
proof -
  let ?c = "cleanup_devices s"
  note main = reinit_replays_fresh [of sys s]
  have 3: "m_devices ?c = []"
    by (simp add: cleanup_devices_def delete_devices_def)
  have 4: "events ?c = events s @ map Delete_device (m_devices s)"
    by (simp add: cleanup_devices_def delete_devices_def)
  have 1: "events (initCaptureDevices sys s)
             = events s @ map Delete_device (m_devices s)
               @ events (initCaptureDevices sys fresh_manager)"
    using main by (simp add: rebase_def 4)
  have 2: "m_devices (initCaptureDevices sys s) = m_devices (initCaptureDevices sys fresh_manager)"
    by (simp add: m_devices_init_any)
  have 5: "(?c = s) = (m_devices s = [])"
  proof
    assume "?c = s"
    then have "m_devices ?c = m_devices s" by simp
    with 3 show "m_devices s = []" by simp
  next
    assume "m_devices s = []"
    then show "?c = s" by (simp add: cleanup_devices_def)
  qed
  have 6: "events (initCaptureDevices sys s)
     = events s @ map Delete_device (m_devices s)
       @ (if FAILED (coCreateInstance_hr sys) then []
          else if FAILED (createClassEnumerator_hr sys) \<or> createClassEnumerator_hr sys = S_FALSE
          then [Acquire DevEnum, Release DevEnum]
          else [Acquire DevEnum, Acquire MonikerEnum]
               @ events (enum_loop (monikers sys) fresh_manager)
               @ [Release MonikerEnum, Release DevEnum])"
    by (simp only: 1 events_init_fresh)
  note 7 = m_devices_init_any [of sys s]
  show ?thesis
    by (intro conjI 1 2 3 4 5 6 7)
qed


theorem reinitialization_destroys_then_enumerates_witness:
  "m_devices (DSManager_ctor (com_with [webcam 5])) = [device_of (webcam 5)]
   \<and> cleanup_devices (DSManager_ctor (com_with [webcam 5])) \<noteq> DSManager_ctor (com_with [webcam 5])
   \<and> events (initCaptureDevices (com_with [vfw_device 0, webcam 1])
               (DSManager_ctor (com_with [webcam 5])))
     = events (DSManager_ctor (com_with [webcam 5]))
       @ [Delete_device (device_of (webcam 5))]
       @ [Acquire DevEnum, Acquire MonikerEnum,
          Acquire (Moniker 0), Acquire (BaseFilter 0), Acquire (VfwCaptureDialogs 0),
          Release (VfwCaptureDialogs 0), Release (BaseFilter 0),
          Acquire (Moniker 1), Acquire (BaseFilter 1), Acquire (PropertyBag 1),
          New_device (device_of (webcam 1)), Release (PropertyBag 1), Release (Moniker 1),
          Release MonikerEnum, Release DevEnum]
   \<and> m_devices (initCaptureDevices (com_with [vfw_device 0, webcam 1])
                  (DSManager_ctor (com_with [webcam 5])))
     = [device_of (webcam 1)]"
proof -
  let ?s = "DSManager_ctor (com_with [webcam 5])"
  let ?sys = "com_with [vfw_device 0, webcam 1]"
  note all = reinitialization_destroys_then_enumerates [of ?sys ?s]
  have d: "m_devices ?s = [device_of (webcam 5)]"
    by (simp add: run_defs device_of_def)
  have ok: "\<not> FAILED (coCreateInstance_hr ?sys) \<and> \<not> FAILED (createClassEnumerator_hr ?sys)
            \<and> createClassEnumerator_hr ?sys \<noteq> S_FALSE"
    by (simp add: com_with_def FAILED_def S_OK_def S_FALSE_def)
  have loop: "events (enum_loop (monikers ?sys) fresh_manager)
      = [Acquire (Moniker 0), Acquire (BaseFilter 0), Acquire (VfwCaptureDialogs 0),
          Release (VfwCaptureDialogs 0), Release (BaseFilter 0),
          Acquire (Moniker 1), Acquire (BaseFilter 1), Acquire (PropertyBag 1),
          New_device (device_of (webcam 1)), Release (PropertyBag 1), Release (Moniker 1)]"
    by (simp add: run_defs device_of_def fresh_manager_def)
  have acc: "filter accepted (monikers ?sys) = [webcam 1]"
    by (simp add: com_with_def accepted_def is_legacy_def props_read_def vfw_device_def
        webcam_def SUCCEEDED_def S_OK_def E_NOINTERFACE_def)
  from all have "(cleanup_devices ?s = ?s) = (m_devices ?s = [])"
    by blast
  with d have n: "cleanup_devices ?s \<noteq> ?s"
    by simp
  from all have "events (initCaptureDevices ?sys ?s)
     = events ?s @ map Delete_device (m_devices ?s)
       @ (if FAILED (coCreateInstance_hr ?sys) then []
          else if FAILED (createClassEnumerator_hr ?sys) \<or> createClassEnumerator_hr ?sys = S_FALSE
          then [Acquire DevEnum, Release DevEnum]
          else [Acquire DevEnum, Acquire MonikerEnum]
               @ events (enum_loop (monikers ?sys) fresh_manager)
               @ [Release MonikerEnum, Release DevEnum])"
    by blast
  then have e: "events (initCaptureDevices ?sys ?s)
     = events ?s @ [Delete_device (device_of (webcam 5))]
       @ [Acquire DevEnum, Acquire MonikerEnum,
          Acquire (Moniker 0), Acquire (BaseFilter 0), Acquire (VfwCaptureDialogs 0),
          Release (VfwCaptureDialogs 0), Release (BaseFilter 0),
          Acquire (Moniker 1), Acquire (BaseFilter 1), Acquire (PropertyBag 1),
          New_device (device_of (webcam 1)), Release (PropertyBag 1), Release (Moniker 1),
          Release MonikerEnum, Release DevEnum]"
    by (simp only: d ok loop if_False simp_thms list.map append.simps)
  from all have "m_devices (initCaptureDevices ?sys ?s)
     = (if FAILED (coCreateInstance_hr ?sys) \<or> FAILED (createClassEnumerator_hr ?sys)
           \<or> createClassEnumerator_hr ?sys = S_FALSE
        then [] else map device_of (filter accepted (monikers ?sys)))"
    by blast
  then have m: "m_devices (initCaptureDevices ?sys ?s) = [device_of (webcam 1)]"
    by (simp only: ok acc if_False simp_thms list.map)
  from d n e m show ?thesis by blast
qed

subsection \<open>CoUninitialize\<close>

lemma count_CoUninit_deletes: "count_list (map Delete_device ds) CoUninitialize = 0"
  by (induction ds) simp_all

lemma count_CoUninit_loop_body:
  "count_list (events (loop_body mk s)) CoUninitialize = count_list (events s) CoUninitialize"
  by (simp add: body_defs)

lemma count_CoUninit_enum_loop:
  "count_list (events (enum_loop mks s)) CoUninitialize = count_list (events s) CoUninitialize"
  by (induction mks arbitrary: s) (simp_all add: count_CoUninit_loop_body)

lemma count_CoUninit_init:
  "count_list (events (initCaptureDevices sys s)) CoUninitialize
     = count_list (events s) CoUninitialize"
  by (simp add: initCaptureDevices_def cleanup_devices_def delete_devices_def Let_def emit_def
      count_CoUninit_enum_loop count_CoUninit_deletes)

lemma coUninitialize_ctor: "coUninitialize (DSManager_ctor sys) = False"
  by (simp add: DSManager_ctor_def Let_def)

lemma count_CoUninit_ctor: "count_list (events (DSManager_ctor sys)) CoUninitialize = 0"
  by (simp add: DSManager_ctor_def Let_def count_CoUninit_init)

text \<open>
  C3, as stated, fails: a manager constructed with a successful \<open>CoInitializeEx\<close> and
  then destroyed has made no call of \<open>CoUninitialize\<close>, not one.
\<close>

theorem dtor_uninitializes_once_counterexample:
  "SUCCEEDED (coInitializeEx_hr (com_with [webcam 0]))
   \<and> count_list (events (DSManager_dtor (DSManager_ctor (com_with [webcam 0])))) CoUninitialize
       \<noteq> 1"
  by (simp add: run_defs)

text \<open>
  C3, amended. The constructor leaves \<open>_coUninitialize\<close> false whatever
  \<open>CoInitializeEx\<close> answered, and constructing and then destroying a manager makes no
  call of \<open>CoUninitialize\<close> at all.
\<close>

theorem dtor_never_uninitializes:
  "coUninitialize (DSManager_ctor sys) = False
   \<and> count_list (events (DSManager_dtor (DSManager_ctor sys))) CoUninitialize = 0"
  by (simp add: DSManager_dtor_def delete_devices_def Let_def coUninitialize_ctor
      count_CoUninit_ctor count_CoUninit_deletes)

subsection \<open>Interface pointers that are never released\<close>

text \<open>
  C1 does not hold of the code. Enumerating a single ordinary camera acquires its
  base-filter interface once and never releases it: only the branch of line 144, taken
  for a Video for Windows device, releases \<open>cp\<close>. Enumerating a single Video for Windows
  device acquires its moniker once and never releases it: the \<open>continue\<close> of line 145
  skips the release of line 215, which the two other \<open>continue\<close> branches (lines 168
  and 179) do themselves.
\<close>

theorem initCaptureDevices_leaks_handles:
  "count_list (events (DSManager_ctor (com_with [webcam 0]))) (Acquire (BaseFilter 0)) = 1
   \<and> count_list (events (DSManager_ctor (com_with [webcam 0]))) (Release (BaseFilter 0)) = 0
   \<and> count_list (events (DSManager_ctor (com_with [vfw_device 0]))) (Acquire (Moniker 0)) = 1
   \<and> count_list (events (DSManager_ctor (com_with [vfw_device 0]))) (Release (Moniker 0)) = 0"
  by (simp add: run_defs)

section \<open>Properties of the CoreAudio utilities\<close>

lemmas jni_defs = JNI_OK_def JNI_EDETACHED_def JNI_EVERSION_def

lemmas guard_defs = ATTACH_def DETACH_def call_def getEnv_def Let_def jni_defs

lemmas count_defs = detaches_def attaches_def class_resolutions_def method_resolutions_def
  registrations_def

lemmas example_defs = good_rt_def no_log_rt_def detached_rt_def loaded_world_def
  unattached_world_def initial_world_def CoreAudioDevice_def

subsection \<open>What each entry point does to the state\<close>

text \<open>
  With the module loaded every entry point returns. Each summary below lists what the
  call keeps: the static variables or the invariant on them, the attachment of the
  thread, and the balance of attaches and detaches.
\<close>

lemma log_summary:
  assumes "MacCoreaudio_VM w \<noteq> 0"
  shows "\<exists>w'. MacCoreaudio_log rt msg w = Some w'
     \<and> same_globals w w' \<and> attached w' = attached w
     \<and> detaches w' + attaches w = attaches w' + detaches w
     \<and> (getEnv rt w = JNI_OK \<longrightarrow> detaches w' = detaches w)
     \<and> class_resolutions w' = class_resolutions w
     \<and> method_resolutions w' = method_resolutions w
     \<and> registrations w' = registrations w"
  using assms
  by (simp add: MacCoreaudio_log_def guard_defs count_defs same_globals_def)

lemma callback_summary:
  assumes "MacCoreaudio_VM w \<noteq> 0" and "n \<le> length buffer"
  shows "\<exists>b w'. MacCoreaudio_callbackMethod rt buffer n cb mid w = Some (b, w')
     \<and> same_globals w w' \<and> attached w' = attached w
     \<and> detaches w' + attaches w = attaches w' + detaches w
     \<and> (getEnv rt w = JNI_OK \<longrightarrow> detaches w' = detaches w)"
  using assms
  by (simp add: MacCoreaudio_callbackMethod_def guard_defs count_defs same_globals_def)

lemma devicesChanged_summary:
  assumes "MacCoreaudio_VM w \<noteq> 0"
  shows "\<exists>w'. MacCoreaudio_devicesChangedCallbackMethod rt w = Some w'
     \<and> same_globals w w' \<and> attached w' = attached w
     \<and> detaches w' + attaches w = attaches w' + detaches w
     \<and> (getEnv rt w = JNI_OK \<longrightarrow> detaches w' = detaches w)"
  using assms
  by (simp add: MacCoreaudio_devicesChangedCallbackMethod_def MacCoreaudio_log_def
      guard_defs count_defs same_globals_def)

lemma initHotplug_summary:
  assumes "MacCoreaudio_VM w \<noteq> 0"
  shows "\<exists>w'. MacCoreaudio_initHotplug rt w = Some w'
     \<and> MacCoreaudio_VM w' = MacCoreaudio_VM w \<and> attached w' = attached w
     \<and> detaches w' + attaches w = attaches w' + detaches w
     \<and> (getEnv rt w = JNI_OK \<longrightarrow> detaches w' = detaches w)
     \<and> (hotplug_inv w \<longrightarrow> hotplug_inv w')"
  using assms
  by (simp add: MacCoreaudio_initHotplug_def MacCoreaudio_log_def resolve_hotplug_def
      guard_defs count_defs hotplug_inv_def)

lemma freeHotplug_summary:
  assumes "MacCoreaudio_VM w \<noteq> 0"
  shows "\<exists>w'. MacCoreaudio_freeHotplug rt w = Some w'
     \<and> MacCoreaudio_VM w' = MacCoreaudio_VM w \<and> attached w' = attached w
     \<and> detaches w' + attaches w = attaches w' + detaches w
     \<and> (getEnv rt w = JNI_OK \<longrightarrow> detaches w' = detaches w)
     \<and> hotplug_inv w'"
  using assms
  by (simp add: MacCoreaudio_freeHotplug_def MacCoreaudio_log_def guard_defs count_defs
      hotplug_inv_def)

text \<open>Before the module is loaded the virtual machine pointer is null and a call crashes.\<close>

lemma log_crash: "MacCoreaudio_VM w = 0 \<Longrightarrow> MacCoreaudio_log rt msg w = None"
  by (simp add: MacCoreaudio_log_def ATTACH_def)

lemma callback_crash:
  "MacCoreaudio_VM w = 0 \<Longrightarrow> MacCoreaudio_callbackMethod rt buffer n cb mid w = None"
  by (simp add: MacCoreaudio_callbackMethod_def ATTACH_def)

lemma devicesChanged_crash:
  "MacCoreaudio_VM w = 0 \<Longrightarrow> MacCoreaudio_devicesChangedCallbackMethod rt w = None"
  by (simp add: MacCoreaudio_devicesChangedCallbackMethod_def log_crash)

lemma initHotplug_crash:
  "MacCoreaudio_VM w = 0 \<Longrightarrow> MacCoreaudio_initHotplug rt w = None"
  by (simp add: MacCoreaudio_initHotplug_def log_crash)

lemma freeHotplug_crash:
  "MacCoreaudio_VM w = 0 \<Longrightarrow> MacCoreaudio_freeHotplug rt w = None"
  by (simp add: MacCoreaudio_freeHotplug_def log_crash)

subsection \<open>The attach and detach guard\<close>

lemma left_attachedI:
  assumes "attached w' = attached w"
      and "detaches w' + attaches w = attaches w' + detaches w"
      and "getEnv rt w = JNI_OK \<longrightarrow> detaches w' = detaches w"
  shows "left_attached rt w w'"
  using assms by (simp add: left_attached_def getEnv_def)

lemma guard_facts:
  assumes "MacCoreaudio_VM w \<noteq> 0"
  shows "\<exists>g w1. ATTACH rt w = Some (g, w1)
      \<and> ((shouldDetach g = 1) = (\<not> attached w \<and> attached w1))
      \<and> (getEnv rt w = JNI_OK \<longrightarrow> DETACH g w1 = w1 \<and> getEnv rt w1 = JNI_OK)
      \<and> detaches (DETACH g w2) = detaches w2 + (if shouldDetach g = 1 then 1 else 0)"
  using assms by (simp add: guard_defs count_defs)

lemma log_left_attached:
  assumes "MacCoreaudio_VM w \<noteq> 0"
  shows "\<exists>w'. MacCoreaudio_log rt msg w = Some w' \<and> left_attached rt w w'"
  using log_summary [OF assms, of rt msg] by (blast intro: left_attachedI)

lemma callback_left_attached:
  assumes "MacCoreaudio_VM w \<noteq> 0" and "n \<le> length buffer"
  shows "\<exists>b w'. MacCoreaudio_callbackMethod rt buffer n cb mid w = Some (b, w')
           \<and> left_attached rt w w'"
  using callback_summary [OF assms, of rt cb mid] by (blast intro: left_attachedI)

lemma devicesChanged_left_attached:
  assumes "MacCoreaudio_VM w \<noteq> 0"
  shows "\<exists>w'. MacCoreaudio_devicesChangedCallbackMethod rt w = Some w' \<and> left_attached rt w w'"
  using devicesChanged_summary [OF assms, of rt] by (blast intro: left_attachedI)

lemma initHotplug_left_attached:
  assumes "MacCoreaudio_VM w \<noteq> 0"
  shows "\<exists>w'. MacCoreaudio_initHotplug rt w = Some w' \<and> left_attached rt w w'"
  using initHotplug_summary [OF assms, of rt] by (blast intro: left_attachedI)

lemma freeHotplug_left_attached:
  assumes "MacCoreaudio_VM w \<noteq> 0"
  shows "\<exists>w'. MacCoreaudio_freeHotplug rt w = Some w' \<and> left_attached rt w w'"
  using freeHotplug_summary [OF assms, of rt] by (blast intro: left_attachedI)

text \<open>
  C4. With the module loaded: \<open>ATTACH\<close> sets \<open>shouldDetach\<close> exactly when it found the
  thread unattached and attached it, \<open>DETACH\<close> detaches exactly when \<open>shouldDetach\<close> is
  set, and on a thread that holds a context on entry the pair changes nothing but the
  record of the query. Each of the five guarded entry points returns, and leaves the
  thread attached: a thread that held a context on entry holds it on return and no
  detach was made; in every case the invocation made as many detaches as successful
  attaches. (For the buffer callback the buffer holds at least \<open>n\<close> bytes.)
\<close>

theorem guard_never_detaches_foreign_thread:
  assumes "MacCoreaudio_VM w \<noteq> 0" and "n \<le> length buffer"
  shows "(\<exists>g w1. ATTACH rt w = Some (g, w1)
      \<and> ((shouldDetach g = 1) = (\<not> attached w \<and> attached w1))
      \<and> (getEnv rt w = JNI_OK \<longrightarrow> DETACH g w1 = w1 \<and> getEnv rt w1 = JNI_OK)
      \<and> detaches (DETACH g w2) = detaches w2 + (if shouldDetach g = 1 then 1 else 0))
    \<and> (\<exists>w'. MacCoreaudio_log rt msg w = Some w' \<and> left_attached rt w w')
    \<and> (\<exists>b w'. MacCoreaudio_callbackMethod rt buffer n cb mid w = Some (b, w')
          \<and> left_attached rt w w')
    \<and> (\<exists>w'. MacCoreaudio_devicesChangedCallbackMethod rt w = Some w' \<and> left_attached rt w w')
    \<and> (\<exists>w'. MacCoreaudio_initHotplug rt w = Some w' \<and> left_attached rt w w')
    \<and> (\<exists>w'. MacCoreaudio_freeHotplug rt w = Some w' \<and> left_attached rt w w')"
  using guard_facts [OF assms(1)] log_left_attached [OF assms(1)]
    callback_left_attached [OF assms] devicesChanged_left_attached [OF assms(1)]
    initHotplug_left_attached [OF assms(1)] freeHotplug_left_attached [OF assms(1)]
  by blast

theorem guard_never_detaches_foreign_thread_witness:
  "MacCoreaudio_VM loaded_world \<noteq> 0 \<and> 3 \<le> length [1, 2, 3 :: jbyte]
   \<and> getEnv good_rt loaded_world = JNI_OK
   \<and> (\<exists>b w'. MacCoreaudio_callbackMethod good_rt [1, 2, 3] 3 5 6 loaded_world = Some (b, w')
         \<and> getEnv good_rt w' = JNI_OK \<and> detaches w' = detaches loaded_world)
   \<and> (\<exists>w'. MacCoreaudio_initHotplug good_rt loaded_world = Some w'
         \<and> getEnv good_rt w' = JNI_OK \<and> detaches w' = detaches loaded_world)"
proof -
  have vm: "MacCoreaudio_VM loaded_world \<noteq> 0"
    by (simp add: example_defs)
  have len: "3 \<le> length [1, 2, 3 :: jbyte]"
    by simp
  have ok: "getEnv good_rt loaded_world = JNI_OK"
    by (simp add: getEnv_def example_defs)
  note all = guard_never_detaches_foreign_thread [OF vm len, of good_rt]
  from all have "\<exists>b w'. MacCoreaudio_callbackMethod good_rt [1, 2, 3] 3 5 6 loaded_world = Some (b, w')
          \<and> left_attached good_rt loaded_world w'"
    by blast
  moreover from all have "\<exists>w'. MacCoreaudio_initHotplug good_rt loaded_world = Some w'
          \<and> left_attached good_rt loaded_world w'"
    by blast
  ultimately show ?thesis
    using vm len ok by (auto simp: left_attached_def)
qed

subsection \<open>The buffer callback\<close>

text \<open>
  C5. With the module loaded and a runtime context available, for a native buffer \<open>B\<close>
  of \<open>L\<close> bytes and a managed method that leaves the array at its length \<open>L\<close> (an
  array of the runtime cannot change its length): the managed method is called once,
  on an array holding \<open>B\<close>, and the native buffer returned is the array as the method
  left it. So it is \<open>B\<close> when the method left the array as it was, and the pattern \<open>P\<close>
  when the method wrote \<open>P\<close>.
\<close>

theorem callback_copies_back_unconditionally:
  assumes "MacCoreaudio_VM w \<noteq> 0" and "context_available rt w"
      and "length B = L" and "length (managed_callback rt cb mid B L) = L"
  shows "(\<exists>w'. MacCoreaudio_callbackMethod rt B L cb mid w
                 = Some (managed_callback rt cb mid B L, w')
            \<and> filter is_managed_call (calls w')
                = filter is_managed_call (calls w)
                  @ [CallVoidMethod cb mid [JByteArray B, JInt (int L)]])
    \<and> (managed_callback rt cb mid B L = B
         \<longrightarrow> (\<exists>w'. MacCoreaudio_callbackMethod rt B L cb mid w = Some (B, w')))
    \<and> (managed_callback rt cb mid B L = P
         \<longrightarrow> (\<exists>w'. MacCoreaudio_callbackMethod rt B L cb mid w = Some (P, w')))"
proof -
  have arr: "SetByteArrayRegion (NewByteArray L) L B = B"
    using assms(3) by (simp add: SetByteArrayRegion_def NewByteArray_def memcpy_def)
  have cpy: "memcpy B (managed_callback rt cb mid B L) L = managed_callback rt cb mid B L"
    using assms(3,4) by (simp add: memcpy_def)
  have "\<exists>w'. MacCoreaudio_callbackMethod rt B L cb mid w
                 = Some (managed_callback rt cb mid B L, w')
            \<and> filter is_managed_call (calls w')
                = filter is_managed_call (calls w)
                  @ [CallVoidMethod cb mid [JByteArray B, JInt (int L)]]"
    using assms(1,2,3)
    by (auto simp add: MacCoreaudio_callbackMethod_def arr cpy context_available_def guard_defs
        split: if_splits)
  then show ?thesis by auto
qed

theorem callback_copies_back_unconditionally_witness:
  "MacCoreaudio_VM loaded_world \<noteq> 0 \<and> context_available good_rt loaded_world
   \<and> length [1, 2, 3 :: jbyte] = 3
   \<and> length (managed_callback good_rt 5 6 [1, 2, 3] 3) = 3
   \<and> managed_callback good_rt 5 6 [1, 2, 3] 3 = [1, 2, 3]
   \<and> (\<exists>w'. MacCoreaudio_callbackMethod good_rt [1, 2, 3] 3 5 6 loaded_world
             = Some ([1, 2, 3], w'))"
proof -
  have vm: "MacCoreaudio_VM loaded_world \<noteq> 0"
    by (simp add: example_defs)
  have ctx: "context_available good_rt loaded_world"
    by (simp add: context_available_def getEnv_def jni_defs example_defs)
  have len: "length [1, 2, 3 :: jbyte] = 3" by simp
  have cb: "managed_callback good_rt 5 6 [1, 2, 3] 3 = [1, 2, 3]"
    by (simp add: good_rt_def)
  have keep: "length (managed_callback good_rt 5 6 [1, 2, 3] 3) = 3"
    by (simp add: cb)
  from callback_copies_back_unconditionally [OF vm ctx len keep, where P = "[]"]
  have "managed_callback good_rt 5 6 [1, 2, 3] 3 = [1, 2, 3]
         \<longrightarrow> (\<exists>w'. MacCoreaudio_callbackMethod good_rt [1, 2, 3] 3 5 6 loaded_world
                    = Some ([1, 2, 3], w'))"
    by blast
  with cb have "\<exists>w'. MacCoreaudio_callbackMethod good_rt [1, 2, 3] 3 5 6 loaded_world
                    = Some ([1, 2, 3], w')"
    by blast
  then show ?thesis using vm ctx len keep cb by blast
qed

text \<open>
  C6. With the module loaded and no runtime context to be had (the thread is not
  attached and cannot be attached, or the runtime does not support the version asked
  for), the callback returns the native buffer as it was; it has made the query, and
  the failed attempt to attach when the thread was not attached, and no call into
  managed code.
\<close>

theorem callback_dropped_without_context:
  assumes "MacCoreaudio_VM w \<noteq> 0" and "\<not> context_available rt w"
  shows "\<exists>w'. MacCoreaudio_callbackMethod rt B L cb mid w = Some (B, w')
      \<and> calls w' = calls w @ (if attached w then [GetEnv JNI_EVERSION]
                              else [GetEnv JNI_EDETACHED,
                                    AttachCurrentThreadAsDaemon (attach_result rt)])
      \<and> filter is_managed_call (calls w') = filter is_managed_call (calls w)"
  using assms
  by (auto simp add: MacCoreaudio_callbackMethod_def context_available_def guard_defs
      split: if_splits)

theorem callback_dropped_without_context_witness:
  "MacCoreaudio_VM unattached_world \<noteq> 0 \<and> \<not> attached unattached_world
   \<and> attach_result detached_rt \<noteq> 0
   \<and> \<not> context_available detached_rt unattached_world
   \<and> (\<exists>w'. MacCoreaudio_callbackMethod detached_rt [1, 2, 3] 3 5 6 unattached_world
             = Some ([1, 2, 3], w')
         \<and> calls w' = [GetEnv JNI_EDETACHED, AttachCurrentThreadAsDaemon (- 1)])"
proof -
  have vm: "MacCoreaudio_VM unattached_world \<noteq> 0"
    by (simp add: example_defs)
  have na: "\<not> attached unattached_world \<and> attach_result detached_rt \<noteq> 0"
    by (simp add: example_defs)
  have ctx: "\<not> context_available detached_rt unattached_world"
    by (simp add: context_available_def getEnv_def jni_defs example_defs)
  from callback_dropped_without_context [OF vm ctx, of "[1, 2, 3]" 3 5 6]
  have "\<exists>w'. MacCoreaudio_callbackMethod detached_rt [1, 2, 3] 3 5 6 unattached_world
             = Some ([1, 2, 3], w')
         \<and> calls w' = [GetEnv JNI_EDETACHED, AttachCurrentThreadAsDaemon (- 1)]"
    by (auto simp add: example_defs)
  then show ?thesis using vm na ctx by blast
qed

subsection \<open>The diagnostic forwarder\<close>

text \<open>
  \<open>JavaLogger::log\<close> tests both the class and the method identifier: it never calls a
  method with a null identifier, and calls nothing when either lookup fails.
\<close>

lemma JavaLogger_log_checks_method:
  "\<exists>ds. JavaLogger_log rt logger level message cs = cs @ ds
     \<and> (\<forall>obj args. CallVoidMethod obj 0 args \<notin> set ds)
     \<and> (get_object_class rt logger = 0
          \<or> get_method_id rt (get_object_class rt logger) level ''(Ljava/lang/Object;)V'' = 0
         \<longrightarrow> filter is_managed_call ds = [])"
  by (simp add: JavaLogger_log_def Let_def)

text \<open>\<open>MacCoreaudio_log\<close> calls nothing when the class is not found.\<close>

lemma log_class_unresolved:
  assumes "MacCoreaudio_VM w \<noteq> 0" and "find_class rt CoreAudioDevice = 0"
  shows "\<exists>w'. MacCoreaudio_log rt msg w = Some w'
      \<and> filter is_managed_call (calls w') = filter is_managed_call (calls w)"
  using assms by (simp add: MacCoreaudio_log_def guard_defs)

text \<open>
  C2 does not hold of \<open>MacCoreaudio_log\<close>. On an attached thread, with a runtime that
  finds the class and finds no method \<open>log\<close> in it, the identifier returned by
  \<open>GetStaticMethodID\<close> is null and is passed untested to \<open>CallStaticVoidMethod\<close>
  (line 329).
\<close>

theorem log_calls_unresolved_method:
  "get_static_method_id no_log_rt (find_class no_log_rt CoreAudioDevice) ''log'' ''([B)V'' = 0
   \<and> map_option calls (MacCoreaudio_log no_log_rt ''x'' loaded_world)
     = Some [GetEnv JNI_OK, FindClass CoreAudioDevice, GetStaticMethodID 7 ''log'' ''([B)V'',
             CallStaticVoidMethod 7 0 [JByteArray (str_bytes ''x'')]]"
  by (simp add: MacCoreaudio_log_def guard_defs example_defs vsnprintf_def)

subsection \<open>Hotplug initialization\<close>

lemma initHotplug_resolved:
  assumes "MacCoreaudio_VM w \<noteq> 0"
      and "MacCoreaudio_devicesChangedCallbackClass w \<noteq> 0"
      and "MacCoreaudio_devicesChangedCallbackMethodID w \<noteq> 0"
  shows "\<exists>w'. MacCoreaudio_initHotplug rt w = Some w' \<and> same_globals w w'
      \<and> class_resolutions w' = class_resolutions w
      \<and> method_resolutions w' = method_resolutions w
      \<and> registrations w' = registrations w"
  using assms
  by (simp add: MacCoreaudio_initHotplug_def MacCoreaudio_log_def resolve_hotplug_def
      guard_defs count_defs same_globals_def)

lemma resolve_hotplug_resolved:
  assumes "MacCoreaudio_devicesChangedCallbackClass w \<noteq> 0"
      and "MacCoreaudio_devicesChangedCallbackMethodID w \<noteq> 0"
  shows "resolve_hotplug rt w = w"
  using assms by (simp add: resolve_hotplug_def)

lemma ATTACH_same_globals:
  "ATTACH rt w = Some (g, w1) \<Longrightarrow> same_globals w w1"
  by (auto simp add: guard_defs same_globals_def split: if_splits)

lemma initHotplug_resolved_only_guard:
  assumes "MacCoreaudio_devicesChangedCallbackClass w \<noteq> 0"
      and "MacCoreaudio_devicesChangedCallbackMethodID w \<noteq> 0"
  shows "MacCoreaudio_initHotplug rt w =
     (case MacCoreaudio_log rt ''MacCoreAudio_util_initHotplug: Initializing device hotplug'' w of
        None \<Rightarrow> None
      | Some w0 \<Rightarrow>
          (case ATTACH rt w0 of None \<Rightarrow> None | Some (g, w1) \<Rightarrow> Some (DETACH g w1)))"
proof (cases "MacCoreaudio_VM w = 0")
  case True
  then show ?thesis
    by (simp add: MacCoreaudio_initHotplug_def log_crash)
next
  case False
  then obtain w0 where l: "MacCoreaudio_log rt
      ''MacCoreAudio_util_initHotplug: Initializing device hotplug'' w = Some w0"
    and g0: "same_globals w w0"
    using log_summary [of w rt] by blast
  have r: "resolve_hotplug rt w1 = w1" if "ATTACH rt w0 = Some (g, w1)" for g w1
  proof -
    have "same_globals w0 w1" using that by (rule ATTACH_same_globals)
    with g0 assms show ?thesis
      by (intro resolve_hotplug_resolved) (simp_all add: same_globals_def)
  qed
  show ?thesis
    by (auto simp add: MacCoreaudio_initHotplug_def l r split: option.splits)
qed

lemma initHotplug_first_resolution:
  assumes "MacCoreaudio_devicesChangedCallbackClass w = 0"
      and "MacCoreaudio_devicesChangedCallbackMethodID w = 0"
      and "MacCoreaudio_initHotplug rt w = Some w1"
      and "MacCoreaudio_devicesChangedCallbackClass w1 \<noteq> 0"
  shows "MacCoreaudio_VM w1 \<noteq> 0
      \<and> MacCoreaudio_devicesChangedCallbackMethodID w1 \<noteq> 0
      \<and> class_resolutions w1 = class_resolutions w + 1
      \<and> method_resolutions w1 = method_resolutions w + 1
      \<and> registrations w1 = registrations w + 1"
proof -
  have vm: "MacCoreaudio_VM w \<noteq> 0"
    using assms(3) by (cases "MacCoreaudio_VM w = 0") (simp_all add: initHotplug_crash)
  obtain w0 where l: "MacCoreaudio_log rt
      ''MacCoreAudio_util_initHotplug: Initializing device hotplug'' w = Some w0"
    and g0: "same_globals w w0"
    and c0: "class_resolutions w0 = class_resolutions w"
       "method_resolutions w0 = method_resolutions w" "registrations w0 = registrations w"
    using log_summary [OF vm, of rt] by blast
  have vm0: "MacCoreaudio_VM w0 \<noteq> 0"
       and z0: "MacCoreaudio_devicesChangedCallbackClass w0 = 0"
               "MacCoreaudio_devicesChangedCallbackMethodID w0 = 0"
    using g0 vm assms(1,2) by (simp_all add: same_globals_def)
  have t: "(case ATTACH rt w0 of
             None \<Rightarrow> None
           | Some (g, w1) \<Rightarrow>
               Some (DETACH g (if envAttached g \<noteq> 0 then resolve_hotplug rt w1 else w1))) = Some w1"
    using assms(3) by (simp add: MacCoreaudio_initHotplug_def l)
  have "MacCoreaudio_VM w1 \<noteq> 0
      \<and> MacCoreaudio_devicesChangedCallbackMethodID w1 \<noteq> 0
      \<and> class_resolutions w1 = class_resolutions w0 + 1
      \<and> method_resolutions w1 = method_resolutions w0 + 1
      \<and> registrations w1 = registrations w0 + 1"
    using t vm0 z0 assms(4)
    by (auto simp add: resolve_hotplug_def guard_defs count_defs split: if_splits)
  then show ?thesis using c0 by simp
qed

text \<open>
  C7. In a state of the loaded module where both static variables are set, a call of
  \<open>MacCoreaudio_initHotplug\<close> returns, leaves the three static variables as they are,
  takes no global reference, looks up no \<open>devicesChangedCallback\<close> and registers
  nothing: it makes the calls of its diagnostic message and of the guard, and no other.
  And when a call in a state where both variables are null resolves the target (both
  are set afterwards), that call and a further one, on any thread and whatever the
  runtime answers then, have together taken one global reference, looked the method up
  once and registered once.
\<close>

theorem initHotplug_idempotent_once_resolved:
  "(MacCoreaudio_VM w \<noteq> 0
      \<and> MacCoreaudio_devicesChangedCallbackClass w \<noteq> 0
      \<and> MacCoreaudio_devicesChangedCallbackMethodID w \<noteq> 0
    \<longrightarrow> (\<exists>w'. MacCoreaudio_initHotplug rt w = Some w' \<and> same_globals w w'
            \<and> class_resolutions w' = class_resolutions w
            \<and> method_resolutions w' = method_resolutions w
            \<and> registrations w' = registrations w)
        \<and> MacCoreaudio_initHotplug rt w =
            (case MacCoreaudio_log rt ''MacCoreAudio_util_initHotplug: Initializing device hotplug'' w of
               None \<Rightarrow> None
             | Some w0 \<Rightarrow>
                 (case ATTACH rt w0 of None \<Rightarrow> None | Some (g, w1) \<Rightarrow> Some (DETACH g w1))))
   \<and> (MacCoreaudio_devicesChangedCallbackClass w = 0
      \<and> MacCoreaudio_devicesChangedCallbackMethodID w = 0
      \<and> MacCoreaudio_initHotplug rt w = Some v
      \<and> MacCoreaudio_devicesChangedCallbackClass v \<noteq> 0
      \<and> MacCoreaudio_devicesChangedCallbackMethodID v \<noteq> 0
    \<longrightarrow> (\<exists>v'. MacCoreaudio_initHotplug rt' (v\<lparr>attached := b\<rparr>) = Some v'
            \<and> same_globals v v'
            \<and> class_resolutions v' = class_resolutions w + 1
            \<and> method_resolutions v' = method_resolutions w + 1
            \<and> registrations v' = registrations w + 1))"
proof (intro conjI impI)
  assume a: "MacCoreaudio_VM w \<noteq> 0
      \<and> MacCoreaudio_devicesChangedCallbackClass w \<noteq> 0
      \<and> MacCoreaudio_devicesChangedCallbackMethodID w \<noteq> 0"
  then show "\<exists>w'. MacCoreaudio_initHotplug rt w = Some w' \<and> same_globals w w'
            \<and> class_resolutions w' = class_resolutions w
            \<and> method_resolutions w' = method_resolutions w
            \<and> registrations w' = registrations w"
    by (intro initHotplug_resolved) simp_all
  from a show "MacCoreaudio_initHotplug rt w =
            (case MacCoreaudio_log rt ''MacCoreAudio_util_initHotplug: Initializing device hotplug'' w of
               None \<Rightarrow> None
             | Some w0 \<Rightarrow>
                 (case ATTACH rt w0 of None \<Rightarrow> None | Some (g, w1) \<Rightarrow> Some (DETACH g w1)))"
    by (intro initHotplug_resolved_only_guard) simp_all
next
  assume a: "MacCoreaudio_devicesChangedCallbackClass w = 0
      \<and> MacCoreaudio_devicesChangedCallbackMethodID w = 0
      \<and> MacCoreaudio_initHotplug rt w = Some v
      \<and> MacCoreaudio_devicesChangedCallbackClass v \<noteq> 0
      \<and> MacCoreaudio_devicesChangedCallbackMethodID v \<noteq> 0"
  then have first: "MacCoreaudio_VM v \<noteq> 0
      \<and> class_resolutions v = class_resolutions w + 1
      \<and> method_resolutions v = method_resolutions w + 1
      \<and> registrations v = registrations w + 1"
    using initHotplug_first_resolution [of w rt v] by simp
  let ?v = "v\<lparr>attached := b\<rparr>"
  have "\<exists>v'. MacCoreaudio_initHotplug rt' ?v = Some v' \<and> same_globals ?v v'
            \<and> class_resolutions v' = class_resolutions ?v
            \<and> method_resolutions v' = method_resolutions ?v
            \<and> registrations v' = registrations ?v"
    using a first by (intro initHotplug_resolved) simp_all
  then show "\<exists>v'. MacCoreaudio_initHotplug rt' ?v = Some v'
            \<and> same_globals v v'
            \<and> class_resolutions v' = class_resolutions w + 1
            \<and> method_resolutions v' = method_resolutions w + 1
            \<and> registrations v' = registrations w + 1"
    using first by (auto simp add: same_globals_def count_defs)
qed

theorem initHotplug_idempotent_once_resolved_witness:
  "\<exists>v. MacCoreaudio_devicesChangedCallbackClass loaded_world = 0
      \<and> MacCoreaudio_devicesChangedCallbackMethodID loaded_world = 0
      \<and> MacCoreaudio_initHotplug good_rt loaded_world = Some v
      \<and> MacCoreaudio_VM v \<noteq> 0
      \<and> MacCoreaudio_devicesChangedCallbackClass v \<noteq> 0
      \<and> MacCoreaudio_devicesChangedCallbackMethodID v \<noteq> 0
      \<and> (\<exists>v'. MacCoreaudio_initHotplug good_rt (v\<lparr>attached := True\<rparr>) = Some v'
            \<and> class_resolutions v' = 1 \<and> method_resolutions v' = 1 \<and> registrations v' = 1)
      \<and> (\<exists>v'. MacCoreaudio_initHotplug detached_rt v = Some v' \<and> same_globals v v'
            \<and> registrations v' = registrations v)"
proof -
  obtain v where r: "MacCoreaudio_initHotplug good_rt loaded_world = Some v"
    and vm: "MacCoreaudio_VM v \<noteq> 0"
    and c: "MacCoreaudio_devicesChangedCallbackClass v \<noteq> 0"
    and m: "MacCoreaudio_devicesChangedCallbackMethodID v \<noteq> 0"
    by (simp add: MacCoreaudio_initHotplug_def MacCoreaudio_log_def resolve_hotplug_def
        guard_defs example_defs)
  have z: "MacCoreaudio_devicesChangedCallbackClass loaded_world = 0
      \<and> MacCoreaudio_devicesChangedCallbackMethodID loaded_world = 0"
    by (simp add: example_defs)
  have n: "class_resolutions loaded_world = 0 \<and> method_resolutions loaded_world = 0
      \<and> registrations loaded_world = 0"
    by (simp add: count_defs example_defs)
  from initHotplug_idempotent_once_resolved
         [where w = loaded_world and rt = good_rt and v = v and rt' = good_rt and b = True]
  have "MacCoreaudio_devicesChangedCallbackClass loaded_world = 0
      \<and> MacCoreaudio_devicesChangedCallbackMethodID loaded_world = 0
      \<and> MacCoreaudio_initHotplug good_rt loaded_world = Some v
      \<and> MacCoreaudio_devicesChangedCallbackClass v \<noteq> 0
      \<and> MacCoreaudio_devicesChangedCallbackMethodID v \<noteq> 0
    \<longrightarrow> (\<exists>v'. MacCoreaudio_initHotplug good_rt (v\<lparr>attached := True\<rparr>) = Some v'
            \<and> same_globals v v'
            \<and> class_resolutions v' = class_resolutions loaded_world + 1
            \<and> method_resolutions v' = method_resolutions loaded_world + 1
            \<and> registrations v' = registrations loaded_world + 1)"
    by (rule conjunct2)
  with z r c m n
  have two: "\<exists>v'. MacCoreaudio_initHotplug good_rt (v\<lparr>attached := True\<rparr>) = Some v'
            \<and> class_resolutions v' = 1 \<and> method_resolutions v' = 1 \<and> registrations v' = 1"
    by auto
  from initHotplug_idempotent_once_resolved [where w = v and rt = detached_rt] vm c m
  have again: "\<exists>v'. MacCoreaudio_initHotplug detached_rt v = Some v' \<and> same_globals v v'
            \<and> registrations v' = registrations v"
    by blast
  from z r vm c m two again show ?thesis by blast
qed

subsection \<open>The two hotplug variables\<close>

text \<open>
  Each entry point keeps the invariant on the two hotplug variables.
\<close>

lemma log_inv:
  assumes "MacCoreaudio_log rt msg w = Some w'"
  shows "hotplug_inv w' = hotplug_inv w"
proof -
  have "MacCoreaudio_VM w \<noteq> 0"
    using assms by (cases "MacCoreaudio_VM w = 0") (simp_all add: log_crash)
  from log_summary [OF this, of rt msg] assms show ?thesis
    by (auto simp add: same_globals_def hotplug_inv_def)
qed

lemma callback_inv:
  assumes "MacCoreaudio_callbackMethod rt buffer n cb mid w = Some (b, w')"
  shows "hotplug_inv w' = hotplug_inv w"
  using assms
  by (auto simp add: MacCoreaudio_callbackMethod_def guard_defs hotplug_inv_def
      split: if_splits)

lemma devicesChanged_inv:
  assumes "MacCoreaudio_devicesChangedCallbackMethod rt w = Some w'"
  shows "hotplug_inv w' = hotplug_inv w"
proof -
  have "MacCoreaudio_VM w \<noteq> 0"
    using assms by (cases "MacCoreaudio_VM w = 0") (simp_all add: devicesChanged_crash)
  from devicesChanged_summary [OF this, of rt] assms show ?thesis
    by (auto simp add: same_globals_def hotplug_inv_def)
qed

lemma initHotplug_inv:
  assumes "MacCoreaudio_initHotplug rt w = Some w'" and "hotplug_inv w"
  shows "hotplug_inv w'"
proof -
  have "MacCoreaudio_VM w \<noteq> 0"
    using assms(1) by (cases "MacCoreaudio_VM w = 0") (simp_all add: initHotplug_crash)
  from initHotplug_summary [OF this, of rt] assms show ?thesis
    by auto
qed

lemma freeHotplug_inv:
  assumes "MacCoreaudio_freeHotplug rt w = Some w'"
  shows "hotplug_inv w'"
proof -
  have "MacCoreaudio_VM w \<noteq> 0"
    using assms(1) by (cases "MacCoreaudio_VM w = 0") (simp_all add: freeHotplug_crash)
  from freeHotplug_summary [OF this, of rt] assms show ?thesis
    by auto
qed

lemma OnLoad_inv:
  assumes "JNI_OnLoad rt vm w = Some w'" and "hotplug_inv w"
  shows "hotplug_inv w'"
proof -
  obtain w1 where l: "MacCoreaudio_log rt ''MacCoreAudio_util: JNI loaded''
         (w\<lparr>MacCoreaudio_VM := vm\<rparr>) = Some w1"
      and r: "MacCoreaudio_initHotplug rt w1 = Some w'"
    using assms(1) by (auto simp add: JNI_OnLoad_def split: option.splits)
  have "hotplug_inv (w\<lparr>MacCoreaudio_VM := vm\<rparr>)"
    using assms(2) by (simp add: hotplug_inv_def)
  with log_inv [OF l] have "hotplug_inv w1" by simp
  with r show ?thesis by (rule initHotplug_inv)
qed

lemma OnUnload_inv:
  assumes "JNI_OnUnload rt w = Some w'"
  shows "hotplug_inv w'"
proof -
  obtain w1 w2 where "MacCoreaudio_freeHotplug rt w1 = Some w2"
      and w': "w' = w2\<lparr>MacCoreaudio_VM := 0\<rparr>"
    using assms(1) by (auto simp add: JNI_OnUnload_def split: option.splits)
  then have "hotplug_inv w2" by (simp add: freeHotplug_inv)
  then show ?thesis by (simp add: w' hotplug_inv_def)
qed

lemma exec_inv:
  assumes "exec i w = Some w'" and "hotplug_inv w"
  shows "hotplug_inv w'"
proof -
  let ?w = "w\<lparr>attached := thread_attached i\<rparr>"
  have h: "hotplug_inv ?w" using assms(2) by (simp add: hotplug_inv_def)
  show ?thesis
  proof (cases "operation_of i")
    case (Op_OnLoad vm)
    then have "JNI_OnLoad (runtime_of i) vm ?w = Some w'"
      using assms(1) by (simp add: exec_def)
    then show ?thesis using h by (rule OnLoad_inv)
  next
    case Op_OnUnload
    then have "JNI_OnUnload (runtime_of i) ?w = Some w'"
      using assms(1) by (simp add: exec_def)
    then show ?thesis by (rule OnUnload_inv)
  next
    case Op_initHotplug
    then have "MacCoreaudio_initHotplug (runtime_of i) ?w = Some w'"
      using assms(1) by (simp add: exec_def)
    then show ?thesis using h by (rule initHotplug_inv)
  next
    case Op_freeHotplug
    then have "MacCoreaudio_freeHotplug (runtime_of i) ?w = Some w'"
      using assms(1) by (simp add: exec_def)
    then show ?thesis by (rule freeHotplug_inv)
  next
    case Op_devicesChanged
    then have "MacCoreaudio_devicesChangedCallbackMethod (runtime_of i) ?w = Some w'"
      using assms(1) by (simp add: exec_def)
    then show ?thesis using h by (simp add: devicesChanged_inv)
  next
    case (Op_log msg)
    then have "MacCoreaudio_log (runtime_of i) msg ?w = Some w'"
      using assms(1) by (simp add: exec_def)
    then show ?thesis using h by (simp add: log_inv)
  next
    case (Op_callback buffer n cb mid)
    then obtain b where
      "MacCoreaudio_callbackMethod (runtime_of i) buffer n cb mid ?w = Some (b, w')"
      using assms(1) by (auto simp add: exec_def)
    then show ?thesis using h by (simp add: callback_inv)
  qed
qed

lemma run_inv:
  "run ops w = Some w' \<Longrightarrow> hotplug_inv w \<Longrightarrow> hotplug_inv w'"
proof (induction ops arbitrary: w)
  case Nil
  then show ?case by simp
next
  case (Cons i ops)
  from Cons.prems(1) obtain w1 where e: "exec i w = Some w1" and r: "run ops w1 = Some w'"
    by (auto split: option.splits)
  from e Cons.prems(2) have "hotplug_inv w1" by (rule exec_inv)
  with r show ?case by (rule Cons.IH)
qed

lemma freeHotplug_clears_both:
  assumes "MacCoreaudio_freeHotplug rt v = Some v'"
  shows "MacCoreaudio_devicesChangedCallbackClass v' = 0
      \<and> MacCoreaudio_devicesChangedCallbackMethodID v' = 0"
  using assms
  by (auto simp add: MacCoreaudio_freeHotplug_def Let_def split: option.splits)

lemma initHotplug_sets_both:
  assumes "MacCoreaudio_devicesChangedCallbackClass v = 0"
      and "MacCoreaudio_devicesChangedCallbackMethodID v = 0"
      and "MacCoreaudio_initHotplug rt v = Some v'"
      and "MacCoreaudio_devicesChangedCallbackClass v' \<noteq> 0
           \<or> MacCoreaudio_devicesChangedCallbackMethodID v' \<noteq> 0"
  shows "find_class rt CoreAudioDevice \<noteq> 0
      \<and> MacCoreaudio_devicesChangedCallbackClass v'
          = new_global_ref rt (find_class rt CoreAudioDevice)
      \<and> MacCoreaudio_devicesChangedCallbackMethodID v'
          = get_static_method_id rt (MacCoreaudio_devicesChangedCallbackClass v')
              ''devicesChangedCallback'' ''()V''
      \<and> MacCoreaudio_devicesChangedCallbackClass v' \<noteq> 0
      \<and> MacCoreaudio_devicesChangedCallbackMethodID v' \<noteq> 0"
proof -
  have vm: "MacCoreaudio_VM v \<noteq> 0"
    using assms(3) by (cases "MacCoreaudio_VM v = 0") (simp_all add: initHotplug_crash)
  obtain w0 where l: "MacCoreaudio_log rt
      ''MacCoreAudio_util_initHotplug: Initializing device hotplug'' v = Some w0"
    and g0: "same_globals v w0"
    using log_summary [OF vm, of rt] by blast
  have vm0: "MacCoreaudio_VM w0 \<noteq> 0"
       and z0: "MacCoreaudio_devicesChangedCallbackClass w0 = 0"
               "MacCoreaudio_devicesChangedCallbackMethodID w0 = 0"
    using g0 vm assms(1,2) by (simp_all add: same_globals_def)
  have t: "(case ATTACH rt w0 of
             None \<Rightarrow> None
           | Some (g, w1) \<Rightarrow>
               Some (DETACH g (if envAttached g \<noteq> 0 then resolve_hotplug rt w1 else w1)))
           = Some v'"
    using assms(3) by (simp add: MacCoreaudio_initHotplug_def l)
  show ?thesis
    using t vm0 z0 assms(4)
    by (auto simp add: resolve_hotplug_def guard_defs split: if_splits)
qed

text \<open>
  C10. After any sequence of invocations of the entry points that starts in the initial
  state (both variables null) and runs to its end, each invocation on its own thread
  and with its own answers of the runtime, the class variable is null exactly when the
  method variable is. \<open>MacCoreaudio_freeHotplug\<close> leaves both null. When
  \<open>MacCoreaudio_initHotplug\<close>, started with both null, leaves one of them set, the
  class was found, both are set, and they are the global reference to the class and the
  identifier looked up in it.
\<close>

theorem hotplug_globals_resolved_together:
  "(run ops initial_world = Some w \<longrightarrow> hotplug_inv w)
   \<and> (MacCoreaudio_freeHotplug rt v = Some v'
        \<longrightarrow> MacCoreaudio_devicesChangedCallbackClass v' = 0
            \<and> MacCoreaudio_devicesChangedCallbackMethodID v' = 0)
   \<and> (MacCoreaudio_devicesChangedCallbackClass v = 0
        \<and> MacCoreaudio_devicesChangedCallbackMethodID v = 0
        \<and> MacCoreaudio_initHotplug rt v = Some v'
        \<and> (MacCoreaudio_devicesChangedCallbackClass v' \<noteq> 0
            \<or> MacCoreaudio_devicesChangedCallbackMethodID v' \<noteq> 0)
        \<longrightarrow> find_class rt CoreAudioDevice \<noteq> 0
            \<and> MacCoreaudio_devicesChangedCallbackClass v'
                = new_global_ref rt (find_class rt CoreAudioDevice)
            \<and> MacCoreaudio_devicesChangedCallbackMethodID v'
                = get_static_method_id rt (MacCoreaudio_devicesChangedCallbackClass v')
                    ''devicesChangedCallback'' ''()V''
            \<and> MacCoreaudio_devicesChangedCallbackClass v' \<noteq> 0
            \<and> MacCoreaudio_devicesChangedCallbackMethodID v' \<noteq> 0)"
proof (intro conjI)
  show "run ops initial_world = Some w \<longrightarrow> hotplug_inv w"
  proof
    assume "run ops initial_world = Some w"
    then show "hotplug_inv w"
      by (rule run_inv) (simp add: hotplug_inv_def initial_world_def)
  qed
  show "MacCoreaudio_freeHotplug rt v = Some v'
        \<longrightarrow> MacCoreaudio_devicesChangedCallbackClass v' = 0
            \<and> MacCoreaudio_devicesChangedCallbackMethodID v' = 0"
    using freeHotplug_clears_both [of rt v v'] by blast
  show "MacCoreaudio_devicesChangedCallbackClass v = 0
        \<and> MacCoreaudio_devicesChangedCallbackMethodID v = 0
        \<and> MacCoreaudio_initHotplug rt v = Some v'
        \<and> (MacCoreaudio_devicesChangedCallbackClass v' \<noteq> 0
            \<or> MacCoreaudio_devicesChangedCallbackMethodID v' \<noteq> 0)
        \<longrightarrow> find_class rt CoreAudioDevice \<noteq> 0
            \<and> MacCoreaudio_devicesChangedCallbackClass v'
                = new_global_ref rt (find_class rt CoreAudioDevice)
            \<and> MacCoreaudio_devicesChangedCallbackMethodID v'
                = get_static_method_id rt (MacCoreaudio_devicesChangedCallbackClass v')
                    ''devicesChangedCallback'' ''()V''
            \<and> MacCoreaudio_devicesChangedCallbackClass v' \<noteq> 0
            \<and> MacCoreaudio_devicesChangedCallbackMethodID v' \<noteq> 0"
    using initHotplug_sets_both [of v rt v'] by blast
qed

theorem hotplug_globals_resolved_together_witness:
  "\<exists>w v'. run [on_thread (Op_OnLoad 1) good_rt True, on_thread Op_devicesChanged good_rt False]
          initial_world = Some w
      \<and> MacCoreaudio_devicesChangedCallbackClass w = 8
      \<and> MacCoreaudio_devicesChangedCallbackMethodID w = 9
      \<and> hotplug_inv w
      \<and> MacCoreaudio_freeHotplug good_rt w = Some v'
      \<and> MacCoreaudio_devicesChangedCallbackClass v' = 0
      \<and> MacCoreaudio_devicesChangedCallbackMethodID v' = 0"
proof -
  obtain w where r: "run [on_thread (Op_OnLoad 1) good_rt True, on_thread Op_devicesChanged good_rt False]
          initial_world = Some w"
     and c: "MacCoreaudio_devicesChangedCallbackClass w = 8"
     and m: "MacCoreaudio_devicesChangedCallbackMethodID w = 9"
     and vm: "MacCoreaudio_VM w \<noteq> 0"
    by (simp add: on_thread_def exec_def JNI_OnLoad_def MacCoreaudio_initHotplug_def
        MacCoreaudio_devicesChangedCallbackMethod_def MacCoreaudio_log_def resolve_hotplug_def
        guard_defs example_defs)
  obtain v' where f: "MacCoreaudio_freeHotplug good_rt w = Some v'"
    using freeHotplug_summary [OF vm, of good_rt] by blast
  note all = hotplug_globals_resolved_together
               [where ops = "[on_thread (Op_OnLoad 1) good_rt True,
                               on_thread Op_devicesChanged good_rt False]"
                  and w = w and rt = good_rt and v = w and v' = v']
  from all r have i: "hotplug_inv w" by blast
  from all f have z: "MacCoreaudio_devicesChangedCallbackClass v' = 0
      \<and> MacCoreaudio_devicesChangedCallbackMethodID v' = 0" by blast
  from r c m i f z show ?thesis by blast
qed

end
